theory Spec2Isabelle
  imports Complex_Main
begin

section \<open>JavaScript values\<close>

text \<open>
  The forum's modules are JavaScript. A number is an IEEE double: the model keeps the
  three special values and takes the finite ones as rationals (every finite double is
  one), so that comparisons are exact. A value is one of the primitive kinds the code
  under study handles, or an array of values. What a function writes to the console or to
  the logger is left out, except the \<open>console.error\<close> of a controller's error handler.
\<close>

datatype jsnum = NaN | PosInf | NegInf | Fin rat

datatype jsval =
    JUndefined
  | JNull
  | JBool bool
  | JNum jsnum
  | JStr string
  | JArr "jsval list"

text \<open>\<open>Array.isArray\<close>.\<close>

fun isArray :: "jsval \<Rightarrow> bool" where
  "isArray (JArr xs) = True"
| "isArray _ = False"

text \<open>Truthiness, as \<open>!x\<close>, \<open>x || y\<close> and \<open>if (x)\<close> test it.\<close>

fun truthy :: "jsval \<Rightarrow> bool" where
  "truthy JUndefined = False"
| "truthy JNull = False"
| "truthy (JBool b) = b"
| "truthy (JNum n) = (n \<noteq> NaN \<and> n \<noteq> Fin 0)"
| "truthy (JStr s) = (s \<noteq> [])"
| "truthy (JArr xs) = True"

text \<open>\<open>isNaN\<close> on a number.\<close>

fun isNaN :: "jsnum \<Rightarrow> bool" where
  "isNaN NaN = True"
| "isNaN _ = False"

text \<open>The relational operators \<open>a > b\<close> and \<open>a < b\<close> on numbers: false when an operand is NaN.\<close>

fun num_less :: "jsnum \<Rightarrow> jsnum \<Rightarrow> bool" where
  "num_less NaN _ = False"
| "num_less _ NaN = False"
| "num_less PosInf _ = False"
| "num_less _ NegInf = False"
| "num_less NegInf _ = True"
| "num_less _ PosInf = True"
| "num_less (Fin a) (Fin b) = (a < b)"

definition num_greater :: "jsnum \<Rightarrow> jsnum \<Rightarrow> bool" where
  "num_greater a b = num_less b a"

text \<open>
  The conversion to a number that the global \<open>isNaN\<close> and a comparison with a number
  apply to their operand: \<open>undefined\<close> is NaN, \<open>null\<close> is 0, \<open>false\<close> and \<open>true\<close> are 0
  and 1, a number is itself. A string is parsed and an array is first printed and then
  parsed; that parser is the parameter \<open>parse\<close>.
\<close>

fun to_number :: "(jsval \<Rightarrow> jsnum) \<Rightarrow> jsval \<Rightarrow> jsnum" where
  "to_number parse JUndefined = NaN"
| "to_number parse JNull = Fin 0"
| "to_number parse (JBool b) = Fin (if b then 1 else 0)"
| "to_number parse (JNum n) = n"
| "to_number parse (JStr s) = parse (JStr s)"
| "to_number parse (JArr xs) = parse (JArr xs)"

text \<open>Decimal digits of a natural number, as \<open>String(n)\<close> prints an integer.\<close>

definition digit_char :: "nat \<Rightarrow> char" where
  "digit_char d = ''0123456789'' ! d"

function decimal :: "nat \<Rightarrow> string" where
  "decimal n = (if n < 10 then [digit_char n] else decimal (n div 10) @ [digit_char (n mod 10)])"
  by pat_completeness auto
termination
  by (relation "measure id") auto

declare decimal.simps [simp del]

text \<open>
  The digits after the decimal point of a fraction \<open>0 \<le> f < 1\<close>, at most \<open>n\<close> of them.
\<close>

function frac_digits :: "nat \<Rightarrow> rat \<Rightarrow> string" where
  "frac_digits n f =
     (if n = 0 \<or> f = 0 then []
      else digit_char (nat \<lfloor>f * 10\<rfloor>) # frac_digits (n - 1) (f * 10 - of_int \<lfloor>f * 10\<rfloor>))"
  by pat_completeness auto
termination
  by (relation "measure fst") auto

declare frac_digits.simps [simp del]

text \<open>
  A number printed in decimal notation: the whole part, and after a point the digits of
  the fraction when there is one. This is what JavaScript's number-to-string conversion
  prints for a whole number below \<open>10^21\<close> and for a fraction with few digits that a
  double holds exactly, such as 8.5. The exponent notation of very large and very small
  numbers, and the shortest digits JavaScript picks for a double such as 0.1, are not
  reproduced: the printer serves to run the models on inputs of the first kind.
\<close>

definition unsigned_str :: "rat \<Rightarrow> string" where
  "unsigned_str r =
     decimal (nat \<lfloor>r\<rfloor>) @
     (if r = of_int \<lfloor>r\<rfloor> then [] else CHR ''.'' # frac_digits 20 (r - of_int \<lfloor>r\<rfloor>))"

fun num_str :: "jsnum \<Rightarrow> string" where
  "num_str NaN = ''NaN''"
| "num_str PosInf = ''Infinity''"
| "num_str NegInf = ''-Infinity''"
| "num_str (Fin r) = (if r < 0 then ''-'' @ unsigned_str (- r) else unsigned_str r)"

text \<open>
  \<open>String(v)\<close>, which is also what a template literal prints: an array joins its elements
  with commas, \<open>undefined\<close> and \<open>null\<close> elements printing as nothing.
\<close>

definition join_comma :: "string list \<Rightarrow> string" where
  "join_comma ss = (case ss of [] \<Rightarrow> [] | x # xs \<Rightarrow> foldl (\<lambda>acc y. acc @ '','' @ y) x xs)"

fun print_val :: "jsval \<Rightarrow> string" where
  "print_val JUndefined = ''undefined''"
| "print_val JNull = ''null''"
| "print_val (JBool b) = (if b then ''true'' else ''false'')"
| "print_val (JNum n) = num_str n"
| "print_val (JStr s) = s"
| "print_val (JArr xs) =
     join_comma (map (\<lambda>x. if x = JUndefined \<or> x = JNull then [] else print_val x) xs)"

section \<open>Thrown errors\<close>

text \<open>
  An exception is a value: \<open>Error msg\<close> is \<open>new Error(msg)\<close>, and \<open>TypeError\<close> is what the
  runtime throws on a property read of \<open>undefined\<close> or a call of a non-function. A
  computation that may throw returns \<open>js_error + 'a\<close>, with \<open>Inl\<close> the thrown error.
\<close>

datatype js_error = Error string | TypeError string

section \<open>Functions on a state\<close>

text \<open>
  A function that reads and writes a state and may throw: from a state to the outcome
  (\<open>Inl\<close> the thrown error) and the state it leaves. \<open>js_bind\<close> is a call, or an \<open>await\<close> in
  an \<open>async\<close> function, followed by the rest of the function: a thrown error skips the
  rest.
\<close>

type_synonym ('a, 's) action = "'s \<Rightarrow> (js_error + 'a) \<times> 's"

definition js_return :: "'a \<Rightarrow> ('a, 's) action" where
  "js_return x s = (Inr x, s)"

definition js_throw :: "js_error \<Rightarrow> ('a, 's) action" where
  "js_throw e s = (Inl e, s)"

definition js_bind :: "('a, 's) action \<Rightarrow> ('a \<Rightarrow> ('b, 's) action) \<Rightarrow> ('b, 's) action" where
  "js_bind m f s = (case m s of (Inl e, s') \<Rightarrow> (Inl e, s') | (Inr x, s') \<Rightarrow> f x s')"

text \<open>Whole numbers in a template literal.\<close>

definition show_int :: "int \<Rightarrow> string" where
  "show_int i = (if i < 0 then ''-'' @ decimal (nat (- i)) else decimal (nat i))"

section \<open>Scheduled jobs of the user module\<close>

text \<open>
  What the module takes from outside: the conversion of a string to a number (inside
  \<open>isNaN\<close> and the comparisons), the printing of a value in a template literal, and the
  parser of the cron library, which throws from \<open>new cronJob\<close> on a schedule it cannot
  read (\<open>None\<close> when it accepts the schedule, the thrown error otherwise).
\<close>

record jobs_host =
  parse_number :: "jsval \<Rightarrow> jsnum"
  template :: "jsval \<Rightarrow> string"
  cron_rejects :: "string \<Rightarrow> js_error option"

text \<open>
  \<open>getDigesthour\<close>. Its argument is \<open>meta.config.digestHour\<close>, whatever value the
  configuration holds; \<open>isNaN\<close>, \<open>>\<close> and \<open><\<close> convert it to a number, and the last
  \<open>return\<close> hands back the argument as it came.
\<close>

definition getDigesthour :: "jobs_host \<Rightarrow> jsval \<Rightarrow> jsval" where
  "getDigesthour host dhour =
     (if isNaN (to_number (parse_number host) dhour) then JNum (Fin 17)
      else if num_greater (to_number (parse_number host) dhour) (Fin 23) \<or>
              num_less (to_number (parse_number host) dhour) (Fin 0) then JNum (Fin 0)
      else dhour)"

text \<open>
  A cron job of the external library: the schedule it was built with and what it runs.
  \<open>new cronJob(cronTime, onTick, null, true)\<close> starts the job at once, which arms a timer
  in the library; \<open>stop()\<close> disarms it. Two jobs built by two \<open>new\<close> are two objects, so each
  carries the number of the allocation that made it.
\<close>

datatype tick = DigestTick string string | ResetClean

record cron_job =
  job_id :: nat
  cron_time :: string
  on_tick :: tick

text \<open>
  The module's state: the object \<open>jobs\<close> (its keys in insertion order, as \<open>Object.keys\<close>
  lists them), the timers armed in the cron library, and the allocation counter.
\<close>

record jobs_state =
  jobs :: "(string \<times> cron_job) list"
  timers :: "cron_job list"
  next_id :: nat

definition init_jobs :: jobs_state where
  "init_jobs = \<lparr>jobs = [], timers = [], next_id = 0\<rparr>"

text \<open>\<open>jobs[name] = job\<close>: an existing key keeps its place, a new key goes last.\<close>

fun assign_key :: "string \<Rightarrow> 'a \<Rightarrow> (string \<times> 'a) list \<Rightarrow> (string \<times> 'a) list" where
  "assign_key k v [] = [(k, v)]"
| "assign_key k v ((k', v') # kvs) =
     (if k = k' then (k, v) # kvs else (k', v') # assign_key k v kvs)"

text \<open>\<open>delete jobs[name]\<close>.\<close>

definition delete_key :: "string \<Rightarrow> (string \<times> 'a) list \<Rightarrow> (string \<times> 'a) list" where
  "delete_key k kvs = filter (\<lambda>kv. fst kv \<noteq> k) kvs"

text \<open>\<open>job.stop()\<close>: the library disarms the timer of this job object.\<close>

definition stop_timer :: "cron_job \<Rightarrow> cron_job list \<Rightarrow> cron_job list" where
  "stop_timer j ts = filter (\<lambda>t. job_id t \<noteq> job_id j) ts"

text \<open>
  \<open>jobs[name] = new cronJob(cronString, onTick, null, true)\<close>. The constructor parses the
  schedule first: when it throws, no job is made, no timer armed and nothing assigned.
\<close>

definition new_cronJob :: "jobs_host \<Rightarrow> string \<Rightarrow> string \<Rightarrow> tick \<Rightarrow> (unit, jobs_state) action" where
  "new_cronJob host name cronString f s =
     (case cron_rejects host cronString of
        Some e \<Rightarrow> (Inl e, s)
      | None \<Rightarrow>
          (let j = \<lparr>job_id = next_id s, cron_time = cronString, on_tick = f\<rparr>
           in (Inr (),
               \<lparr>jobs = assign_key name j (jobs s), timers = timers s @ [j], next_id = Suc (next_id s)\<rparr>)))"

definition startDigestJob :: "jobs_host \<Rightarrow> string \<Rightarrow> string \<Rightarrow> string \<Rightarrow> (unit, jobs_state) action" where
  "startDigestJob host name cronString term = new_cronJob host name cronString (DigestTick name term)"

definition startResetCleanJob :: "jobs_host \<Rightarrow> (unit, jobs_state) action" where
  "startResetCleanJob host = new_cronJob host ''reset.clean'' ''0 0 * * *'' ResetClean"

text \<open>
  \<open>User.stopJobs\<close>: the loop over \<open>Object.keys(jobs)\<close>, a snapshot of the keys taken before
  the first iteration. Each key is looked up, its job stopped and the key deleted. An
  object holds a key once, so a key of the snapshot is still there at its turn; the case
  \<open>None\<close> is for a list that repeats a key.
\<close>

fun stop_each :: "string list \<Rightarrow> jobs_state \<Rightarrow> jobs_state" where
  "stop_each [] s = s"
| "stop_each (jobId # ks) s =
     (case map_of (jobs s) jobId of
        None \<Rightarrow> stop_each ks s
      | Some j \<Rightarrow>
          stop_each ks (s\<lparr>timers := stop_timer j (timers s), jobs := delete_key jobId (jobs s)\<rparr>))"

definition stopJobs :: "jobs_state \<Rightarrow> jobs_state" where
  "stopJobs s = stop_each (map fst (jobs s)) s"

text \<open>
  \<open>User.startJobs\<close>. The digest hour is computed, the jobs are stopped, and the four
  jobs are made one after the other; the template literals \<open>`0 ${digestHour} * * *`\<close>
  print the hour. An error thrown by a constructor leaves \<open>startJobs\<close> at once, with
  the jobs made so far.
\<close>

definition startJobs :: "jobs_host \<Rightarrow> jsval \<Rightarrow> (unit, jobs_state) action" where
  "startJobs host configured s =
     (let digestHour = getDigesthour host configured
      in js_bind (startDigestJob host ''digest.daily''
                    (''0 '' @ template host digestHour @ '' * * *'') ''day'') (\<lambda>_.
         js_bind (startDigestJob host ''digest.weekly''
                    (''0 '' @ template host digestHour @ '' * * 0'') ''week'') (\<lambda>_.
         js_bind (startDigestJob host ''digest.monthly''
                    (''0 '' @ template host digestHour @ '' 1 * *'') ''month'') (\<lambda>_.
         startResetCleanJob host)))
           (stopJobs s))"

text \<open>The four jobs \<open>startJobs\<close> builds, numbered from \<open>n\<close>, for the printed hour \<open>H\<close>.\<close>

definition four_jobs :: "nat \<Rightarrow> string \<Rightarrow> (string \<times> cron_job) list" where
  "four_jobs n H =
     [(''digest.daily'',
         \<lparr>job_id = n, cron_time = ''0 '' @ H @ '' * * *'', on_tick = DigestTick ''digest.daily'' ''day''\<rparr>),
      (''digest.weekly'',
         \<lparr>job_id = n + 1, cron_time = ''0 '' @ H @ '' * * 0'', on_tick = DigestTick ''digest.weekly'' ''week''\<rparr>),
      (''digest.monthly'',
         \<lparr>job_id = n + 2, cron_time = ''0 '' @ H @ '' 1 * *'', on_tick = DigestTick ''digest.monthly'' ''month''\<rparr>),
      (''reset.clean'',
         \<lparr>job_id = n + 3, cron_time = ''0 0 * * *'', on_tick = ResetClean\<rparr>)]"

text \<open>
  Every armed timer belongs to a job of the registry, every registered job is armed, and
  no job is registered or armed twice.
\<close>

definition armed_inv :: "jobs_state \<Rightarrow> bool" where
  "armed_inv s \<longleftrightarrow>
     timers s = map snd (jobs s) \<and>
     distinct (map fst (jobs s)) \<and>
     distinct (map job_id (timers s))"

text \<open>Moreover the allocation counter is above every job made so far.\<close>

definition jobs_inv :: "jobs_state \<Rightarrow> bool" where
  "jobs_inv s \<longleftrightarrow> armed_inv s \<and> list_all (\<lambda>j. job_id j < next_id s) (timers s)"

text \<open>
  A host to run the module on concrete configurations. The empty string converts to 0
  and this host takes every other string and every array for NaN. Its cron parser reads
  the fields between the spaces of a schedule and throws on the first field that is
  empty or has a character other than a digit and the signs \<open>*\<close>, \<open>,\<close>, \<open>-\<close> and \<open>/\<close>, as
  the library's field parser does on a field that is no number, range or step; the names
  of months and days, which the library also reads, do not occur in this module.
\<close>

fun split_on :: "char \<Rightarrow> string \<Rightarrow> string list" where
  "split_on c [] = [[]]"
| "split_on c (x # xs) =
     (if x = c then [] # split_on c xs
      else (case split_on c xs of [] \<Rightarrow> [[x]] | f # fs \<Rightarrow> (x # f) # fs))"

definition cron_field_ok :: "string \<Rightarrow> bool" where
  "cron_field_ok f \<longleftrightarrow> f \<noteq> [] \<and> list_all (\<lambda>c. c \<in> set ''0123456789*,-/'') f"

definition sample_cron_rejects :: "string \<Rightarrow> js_error option" where
  "sample_cron_rejects cronString =
     (case filter (\<lambda>f. \<not> cron_field_ok f) (split_on CHR '' '' cronString) of
        [] \<Rightarrow> None
      | f # _ \<Rightarrow> Some (Error (''Field ('' @ f @ '') cannot be parsed'')))"

definition sample_jobs_host :: jobs_host where
  "sample_jobs_host =
     \<lparr>parse_number = (\<lambda>v. if v = JStr [] then Fin 0 else NaN),
      template = print_val,
      cron_rejects = sample_cron_rejects\<rparr>"

section \<open>User sessions\<close>

text \<open>
  Modelled from the spec: the database layer behind \<open>db.getSortedSetRange\<close>,
  \<open>db.sortedSetAdd\<close>, \<open>db.sortedSetRemove\<close> and the session store are not among the
  sources. A sorted set is "an ordered-by-score keyed collection": members with their
  scores, each member once, listed by ascending score.
\<close>

type_synonym sorted_set = "(string \<times> int) list"

definition getSortedSetRange_all :: "sorted_set \<Rightarrow> string list" where
  "getSortedSetRange_all z = map fst (sort_key snd z)"

definition sortedSetAdd :: "int \<Rightarrow> string \<Rightarrow> sorted_set \<Rightarrow> sorted_set" where
  "sortedSetAdd score v z = filter (\<lambda>m. fst m \<noteq> v) z @ [(v, score)]"

definition sortedSetRemove :: "string list \<Rightarrow> sorted_set \<Rightarrow> sorted_set" where
  "sortedSetRemove vs z = filter (\<lambda>m. fst m \<notin> set vs) z"

text \<open>
  A stored session: the uid under \<open>passport.user\<close>, when the object has both properties.
  The state is the session sorted set of each user (\<open>uid:<uid>:sessions\<close>) and the
  session store.
\<close>

record session_obj =
  passport_user :: "nat option"

record auth_state =
  user_sessions :: "nat \<Rightarrow> sorted_set"
  session_store :: "string \<rightharpoonup> session_obj"

record auth_config =
  maxUserSessions :: int

text \<open>
  \<open>cleanExpiredSessions\<close>: a session id is expired when the store has no object for it, or
  the object names no user, or another user. The expired ids leave the sorted set; the
  active ones are returned, in the order of the set.
\<close>

definition expired :: "auth_state \<Rightarrow> nat \<Rightarrow> string \<Rightarrow> bool" where
  "expired s uid sid =
     (case session_store s sid of
        None \<Rightarrow> True
      | Some sessionObj \<Rightarrow>
          (case passport_user sessionObj of None \<Rightarrow> True | Some u \<Rightarrow> u \<noteq> uid))"

definition cleanExpiredSessions :: "nat \<Rightarrow> auth_state \<Rightarrow> string list \<times> auth_state" where
  "cleanExpiredSessions uid s =
     (let sids = getSortedSetRange_all (user_sessions s uid)
      in if sids = [] then ([], s)
         else
           (let expiredSids = filter (expired s uid) sids;
                activeSids = filter (\<lambda>sid. \<not> expired s uid sid) sids
            in (activeSids,
                s\<lparr>user_sessions := (user_sessions s)(uid := sortedSetRemove expiredSids (user_sessions s uid))\<rparr>)))"

text \<open>
  \<open>revokeSession\<close>: the ids leave the user's sorted set and the store. A single id is
  wrapped into an array first.
\<close>

definition revokeSession :: "string list \<Rightarrow> nat \<Rightarrow> auth_state \<Rightarrow> auth_state" where
  "revokeSession sessionIds uid s =
     s\<lparr>user_sessions := (user_sessions s)(uid := sortedSetRemove sessionIds (user_sessions s uid)),
       session_store := (\<lambda>sid. if sid \<in> set sessionIds then None else session_store s sid)\<rparr>"

text \<open>
  What \<open>revokeSessionsAboveThreshold\<close> is handed as \<open>activeSids\<close>: an array of session
  ids, or a number. \<open>.length\<close> of an array is its length; a number has no such property
  and the read gives \<open>undefined\<close>, here \<open>None\<close>. \<open>undefined > n\<close> is false, as
  \<open>undefined\<close> converts to NaN.
\<close>

datatype sids_arg = SidArray "string list" | SidNumber int

fun length_prop :: "sids_arg \<Rightarrow> int option" where
  "length_prop (SidArray sids) = Some (int (length sids))"
| "length_prop (SidNumber n) = None"

fun greater_than :: "int option \<Rightarrow> int \<Rightarrow> bool" where
  "greater_than None n = False"
| "greater_than (Some l) n = (l > n)"

text \<open>
  \<open>activeSids.slice(0, activeSids.length - max)\<close>. A number has no method \<open>slice\<close>; the
  call is reached only when the length compared greater, so the length is a number there.
\<close>

fun slice_front :: "sids_arg \<Rightarrow> int option \<Rightarrow> int \<Rightarrow> js_error + string list" where
  "slice_front (SidArray sids) (Some l) m = Inr (take (nat (l - m)) sids)"
| "slice_front (SidArray sids) None m = Inr []"
| "slice_front (SidNumber n) l m = Inl (TypeError ''activeSids.slice is not a function'')"

definition revokeSessionsAboveThreshold ::
  "auth_config \<Rightarrow> sids_arg \<Rightarrow> nat \<Rightarrow> auth_state \<Rightarrow> (js_error + unit) \<times> auth_state" where
  "revokeSessionsAboveThreshold cfg activeSids uid s =
     (if maxUserSessions cfg > 0 \<and> greater_than (length_prop activeSids) (maxUserSessions cfg)
      then
        (case slice_front activeSids (length_prop activeSids) (maxUserSessions cfg) of
           Inl e \<Rightarrow> (Inl e, s)
         | Inr sessionsToRevoke \<Rightarrow> (Inr (), revokeSession sessionsToRevoke uid s))
      else (Inr (), s))"

text \<open>
  \<open>addSession\<close>. \<open>Array.prototype.push\<close> appends to the array and returns its new length;
  that return value is what the last line passes on. \<open>now\<close> is \<open>Date.now()\<close>.
\<close>

definition push :: "string list \<Rightarrow> string \<Rightarrow> string list \<times> int" where
  "push xs x = (xs @ [x], int (length xs) + 1)"

definition addSession ::
  "auth_config \<Rightarrow> int \<Rightarrow> nat \<Rightarrow> string \<Rightarrow> auth_state \<Rightarrow> (js_error + unit) \<times> auth_state" where
  "addSession cfg now uid sessionId s =
     (if \<not> uid > 0 then (Inr (), s)
      else
        (let (activeSids, s1) = cleanExpiredSessions uid s;
             s2 = s1\<lparr>user_sessions := (user_sessions s1)(uid := sortedSetAdd now sessionId (user_sessions s1 uid))\<rparr>;
             (activeSids', pushed) = push activeSids sessionId
         in revokeSessionsAboveThreshold cfg (SidNumber pushed) uid s2))"

text \<open>A user with one live session, and a second session in the store about to be added.\<close>

definition one_session :: auth_state where
  "one_session =
     \<lparr>user_sessions = (\<lambda>u. if u = 1 then [(''s1'', 100)] else []),
      session_store = [''s1'' \<mapsto> \<lparr>passport_user = Some 1\<rparr>, ''s2'' \<mapsto> \<lparr>passport_user = Some 1\<rparr>]\<rparr>"

section \<open>The sorted-set adapter: adding members\<close>

text \<open>
  What the adapter takes from outside: \<open>utils.isNumber\<close> (of this repository, not among
  the sources) and JavaScript's \<open>parseFloat\<close> and \<open>String\<close>, which also renders the
  \<open>${...}\<close> of a template literal.
\<close>

record js_host =
  isNumber :: "jsval \<Rightarrow> bool"
  parseFloat :: "jsval \<Rightarrow> jsnum"
  String_of :: "jsval \<Rightarrow> string"

text \<open>
  Modelled from the spec: \<open>helpers.valueToString\<close> of the adapter's helpers is not among
  the sources; the document it selects has \<open>value: String(value)\<close>.
\<close>

definition valueToString :: "js_host \<Rightarrow> jsval \<Rightarrow> string" where
  "valueToString host v = String_of host v"

text \<open>
  One operation of a bulk write,
  \<open>find({_key: k, value: v}).upsert().updateOne({$set: {score: x}})\<close>, a bulk write on a
  collection, and the database as the sequence of bulk writes executed on it.
\<close>

record upsert =
  find_key :: jsval
  find_value :: string
  set_score :: jsnum

record bulk_write =
  collection :: string
  ops :: "upsert list"

record mongo =
  executed :: "bulk_write list"

definition execute :: "bulk_write \<Rightarrow> mongo \<Rightarrow> mongo" where
  "execute bulk db = db\<lparr>executed := executed db @ [bulk]\<rparr>"

text \<open>\<open>a[i]\<close>: an element, \<open>undefined\<close> out of range, a TypeError on \<open>undefined\<close> and \<open>null\<close>.\<close>

fun js_index :: "jsval \<Rightarrow> nat \<Rightarrow> js_error + jsval" where
  "js_index (JArr xs) i = Inr (if i < length xs then xs ! i else JUndefined)"
| "js_index (JStr s) i = Inr (if i < length s then JStr [s ! i] else JUndefined)"
| "js_index JUndefined i = Inl (TypeError ''Cannot read properties of undefined'')"
| "js_index JNull i = Inl (TypeError ''Cannot read properties of null'')"
| "js_index v i = Inr JUndefined"

definition normalizeScores :: "js_host \<Rightarrow> jsval list \<Rightarrow> jsval \<Rightarrow> js_error + bool \<times> jsval" where
  "normalizeScores host keys scores =
     (case scores of
        JArr xs \<Rightarrow>
          if length xs \<noteq> length keys then Inl (Error ''[[error:invalid-data]]'')
          else if \<not> list_all (isNumber host) xs
          then Inl (Error (''[[error:invalid-score, '' @ String_of host scores @ '']]''))
          else Inr (True, scores)
      | _ \<Rightarrow>
          if \<not> isNumber host scores
          then Inl (Error (''[[error:invalid-score, '' @ String_of host scores @ '']]''))
          else Inr (False, scores))"

text \<open>The loop of \<open>sortedSetsAdd\<close> from index \<open>i\<close> on, adding one operation per key.\<close>

function add_keys ::
  "js_host \<Rightarrow> jsval list \<Rightarrow> bool \<Rightarrow> jsval \<Rightarrow> string \<Rightarrow> nat \<Rightarrow> upsert list \<Rightarrow> js_error + upsert list" where
  "add_keys host keys isArrayOfScores normalizedScores v i bulk =
     (if i < length keys then
        (case (if isArrayOfScores then js_index normalizedScores i else Inr normalizedScores) of
           Inl e \<Rightarrow> Inl e
         | Inr score \<Rightarrow>
             add_keys host keys isArrayOfScores normalizedScores v (i + 1)
               (bulk @ [\<lparr>find_key = keys ! i, find_value = v, set_score = parseFloat host score\<rparr>]))
      else Inr bulk)"
  by pat_completeness auto
termination
  by (relation "measure (\<lambda>(host, keys, a, sc, v, i, bulk). length keys - i)") auto

declare add_keys.simps [simp del]

definition sortedSetsAdd :: "js_host \<Rightarrow> jsval \<Rightarrow> jsval \<Rightarrow> jsval \<Rightarrow> mongo \<Rightarrow> (js_error + unit) \<times> mongo" where
  "sortedSetsAdd host keys scores v db =
     (case keys of
        JArr ks \<Rightarrow>
          if ks = [] then (Inr (), db)
          else
            (case normalizeScores host ks scores of
               Inl e \<Rightarrow> (Inl e, db)
             | Inr (isArrayOfScores, normalizedScores) \<Rightarrow>
                 (case add_keys host ks isArrayOfScores normalizedScores (valueToString host v) 0 [] of
                    Inl e \<Rightarrow> (Inl e, db)
                  | Inr bulk \<Rightarrow> (Inr (), execute \<lparr>collection = ''objects'', ops = bulk\<rparr> db)))
      | _ \<Rightarrow> (Inr (), db))"

text \<open>The loop of \<open>sortedSetAddBulk\<close> over the items of \<open>data\<close>.\<close>

fun add_items :: "js_host \<Rightarrow> jsval list \<Rightarrow> upsert list \<Rightarrow> js_error + upsert list" where
  "add_items host [] bulk = Inr bulk"
| "add_items host (item # items) bulk =
     (case js_index item 1 of
        Inl e \<Rightarrow> Inl e
      | Inr score \<Rightarrow>
          if \<not> isNumber host score
          then Inl (Error (''[[error:invalid-score, '' @ String_of host score @ '']]''))
          else
            (case js_index item 0 of
               Inl e \<Rightarrow> Inl e
             | Inr k \<Rightarrow>
                 (case js_index item 2 of
                    Inl e \<Rightarrow> Inl e
                  | Inr v \<Rightarrow>
                      add_items host items
                        (bulk @ [\<lparr>find_key = k, find_value = String_of host v,
                                  set_score = parseFloat host score\<rparr>]))))"

definition sortedSetAddBulk :: "js_host \<Rightarrow> jsval \<Rightarrow> mongo \<Rightarrow> (js_error + unit) \<times> mongo" where
  "sortedSetAddBulk host data db =
     (case data of
        JArr items \<Rightarrow>
          if items = [] then (Inr (), db)
          else
            (case add_items host items [] of
               Inl e \<Rightarrow> (Inl e, db)
             | Inr bulk \<Rightarrow> (Inr (), execute \<lparr>collection = ''objects'', ops = bulk\<rparr> db))
      | _ \<Rightarrow> (Inr (), db))"

text \<open>
  A host to run the adapter on concrete calls: the finite numbers count as numbers,
  \<open>parseFloat\<close> of a number is the number, and values print as \<open>String\<close> prints them.
\<close>

definition sample_host :: js_host where
  "sample_host =
     \<lparr>isNumber = (\<lambda>v. case v of JNum (Fin r) \<Rightarrow> True | _ \<Rightarrow> False),
      parseFloat = (\<lambda>v. case v of JNum n \<Rightarrow> n | _ \<Rightarrow> NaN),
      String_of = print_val\<rparr>"

section \<open>Profile pictures and covers\<close>

definition getAllowedImageTypes :: "string list" where
  "getAllowedImageTypes = [''image/png'', ''image/jpeg'', ''image/bmp'', ''image/gif'']"

text \<open>
  A JavaScript string is a sequence of UTF-16 code units, and a regular expression
  without the \<open>u\<close> flag matches it code unit by code unit. The position handed to
  \<open>updateCoverPosition\<close> is such a sequence; \<open>units\<close> gives the code units of a literal
  of ASCII characters.
\<close>

type_synonym code_units = "nat list"

definition units :: "string \<Rightarrow> code_units" where
  "units s = map of_char s"

text \<open>
  The regular expression \<open>/^[\d.]+%\s[\d.]+%$/\<close> of \<open>updateCoverPosition\<close>. \<open>[\d.]\<close> is one
  of the digits \<open>0\<close> to \<open>9\<close> (code units 48 to 57) or a dot (46). \<open>\s\<close> is a white-space
  or line-terminator character: tab, line feed, vertical tab, form feed, carriage return,
  space, no-break space (U+00A0), U+1680, U+2000 to U+200A, the line and paragraph
  separators U+2028 and U+2029, U+202F, U+205F, U+3000 and the byte-order mark U+FEFF.
  The percent sign is code unit 37. Without the \<open>m\<close> flag, \<open>^\<close> and \<open>$\<close> are the two ends of
  the string. The class \<open>[\d.]\<close> has no \<open>%\<close>, so the run before a \<open>%\<close> is the longest run of
  the class.
\<close>

definition digit_or_dot :: "nat \<Rightarrow> bool" where
  "digit_or_dot u \<longleftrightarrow> (48 \<le> u \<and> u \<le> 57) \<or> u = 46"

definition white_space :: "nat \<Rightarrow> bool" where
  "white_space u \<longleftrightarrow>
     u \<in> set [0x09, 0x0A, 0x0B, 0x0C, 0x0D, 0x20, 0xA0, 0x1680, 0x2028, 0x2029, 0x202F, 0x205F,
               0x3000, 0xFEFF] \<or>
     (0x2000 \<le> u \<and> u \<le> 0x200A)"

definition percent :: nat where
  "percent = 37"

definition position_regex_test :: "code_units \<Rightarrow> bool" where
  "position_regex_test position =
     (let a = takeWhile digit_or_dot position; r = dropWhile digit_or_dot position
      in a \<noteq> [] \<and>
         (case r of
            p # w # r' \<Rightarrow>
              p = percent \<and> white_space w \<and>
              takeWhile digit_or_dot r' \<noteq> [] \<and> dropWhile digit_or_dot r' = [percent]
          | _ \<Rightarrow> False))"

text \<open>
  The configuration the picture functions read, and an uploaded file as the request
  carries it: its size in bytes, its MIME type (\<open>None\<close> when the property is missing) and
  its path. \<open>data.file\<close> itself may be missing.
\<close>

record picture_config =
  allowProfileImageUploads :: bool
  maximumProfileImageSize :: int
  profileImageDimension :: int

record upload_file =
  file_size :: int
  file_type :: "string option"
  file_path :: string

record picture_data =
  data_file :: "upload_file option"
  data_uid :: nat
  data_callerUid :: nat

text \<open>
  What the function calls after validation, each on the state \<open>'w\<close> of files and user
  records: the methods it reaches through the \<open>User\<close> object (\<open>convertToPNG\<close>,
  \<open>generateProfileImageFilename\<close>, \<open>deleteCurrentPicture\<close>, \<open>updateProfile\<close>,
  \<open>setUserField\<close>) and the modules \<open>file\<close> and \<open>image\<close>, which are not among the sources.
\<close>

record 'w picture_env =
  typeToExtension :: "string \<Rightarrow> string"
  convertToPNG :: "string \<Rightarrow> (string, 'w) action"
  resizeImage :: "string \<Rightarrow> int \<Rightarrow> int \<Rightarrow> (unit, 'w) action"
  generateProfileImageFilename :: "nat \<Rightarrow> string \<Rightarrow> string"
  uploadImage :: "string \<Rightarrow> string \<Rightarrow> nat \<Rightarrow> string \<Rightarrow> (string, 'w) action"
  deleteCurrentPicture :: "nat \<Rightarrow> string \<Rightarrow> (unit, 'w) action"
  updateProfile :: "nat \<Rightarrow> nat \<Rightarrow> string \<Rightarrow> (unit, 'w) action"
  setUserField :: "nat \<Rightarrow> string \<Rightarrow> code_units \<Rightarrow> (unit, 'w) action"

text \<open>\<open>updateCoverPosition\<close>.\<close>

definition updateCoverPosition :: "'w picture_env \<Rightarrow> nat \<Rightarrow> code_units \<Rightarrow> (unit, 'w) action" where
  "updateCoverPosition env uid position =
     (if \<not> position_regex_test position then js_throw (Error ''[[error:invalid-data]]'')
      else setUserField env uid ''cover:position'' position)"

text \<open>
  \<open>uploadCroppedPictureFile\<close>. The result is the url of the uploaded image. A missing
  \<open>data.file\<close> makes the read of \<open>userPhoto.size\<close> a TypeError; a missing or empty type is
  falsy.
\<close>

definition uploadCroppedPictureFile ::
  "'w picture_env \<Rightarrow> picture_config \<Rightarrow> picture_data \<Rightarrow> (string, 'w) action" where
  "uploadCroppedPictureFile env cfg data =
     (if \<not> allowProfileImageUploads cfg
      then js_throw (Error ''[[error:profile-image-uploads-disabled]]'')
      else
        (case data_file data of
           None \<Rightarrow> js_throw (TypeError ''Cannot read properties of undefined (reading size)'')
         | Some userPhoto \<Rightarrow>
             if file_size userPhoto > maximumProfileImageSize cfg * 1024
             then js_throw (Error (''[[error:file-too-big, '' @ show_int (maximumProfileImageSize cfg) @ '']]''))
             else
               (case file_type userPhoto of
                  None \<Rightarrow> js_throw (Error ''[[error:invalid-image]]'')
                | Some ty \<Rightarrow>
                    if ty = [] \<or> ty \<notin> set getAllowedImageTypes
                    then js_throw (Error ''[[error:invalid-image]]'')
                    else
                      (let extension = typeToExtension env ty
                       in if extension = [] then js_throw (Error ''[[error:invalid-image-extension]]'')
                          else
                            js_bind (convertToPNG env (file_path userPhoto)) (\<lambda>newPath.
                            js_bind (resizeImage env newPath (profileImageDimension cfg)
                                       (profileImageDimension cfg)) (\<lambda>_.
                            js_bind (uploadImage env
                                       (generateProfileImageFilename env (data_uid data) extension)
                                       (''profile/uid-'' @ decimal (data_uid data))
                                       (data_uid data) newPath) (\<lambda>url.
                            js_bind (deleteCurrentPicture env (data_uid data) ''uploadedpicture'') (\<lambda>_.
                            js_bind (updateProfile env (data_callerUid data) (data_uid data) url) (\<lambda>_.
                            js_return url)))))))))"

text \<open>
  A world to run the two functions in: the list of files written and the user fields
  set, with an environment that records each write.
\<close>

record sample_world =
  written_files :: "string list"
  user_fields :: "(nat \<times> string \<times> code_units) list"

definition sample_picture_env :: "sample_world picture_env" where
  "sample_picture_env =
     \<lparr>typeToExtension = (\<lambda>ty. if ty = ''image/png'' then ''.png'' else if ty = ''image/jpeg'' then ''.jpg''
                                else if ty = ''image/bmp'' then ''.bmp'' else if ty = ''image/gif'' then ''.gif''
                                else []),
      convertToPNG = (\<lambda>p. js_return p),
      resizeImage = (\<lambda>p w h. js_return ()),
      generateProfileImageFilename = (\<lambda>uid ext. decimal uid @ ''-profileavatar'' @ ext),
      uploadImage = (\<lambda>filename folder uid p w.
         (Inr (''/assets/uploads/'' @ folder @ ''/'' @ filename), w\<lparr>written_files := written_files w @ [filename]\<rparr>)),
      deleteCurrentPicture = (\<lambda>uid field. js_return ()),
      updateProfile = (\<lambda>caller uid url w.
         (Inr (), w\<lparr>user_fields := user_fields w @
                     [(uid, ''uploadedpicture'', units url), (uid, ''picture'', units url)]\<rparr>)),
      setUserField = (\<lambda>uid field v w. (Inr (), w\<lparr>user_fields := user_fields w @ [(uid, field, v)]\<rparr>))\<rparr>"

section \<open>Creating groups\<close>

text \<open>
  Modelled from the spec: the database calls of group creation (\<open>db.sortedSetAdd\<close>,
  \<open>db.setObject\<close>, \<open>db.setAdd\<close>, \<open>db.sortedSetAddBulk\<close>, \<open>db.setObjectField\<close>,
  \<open>db.isSortedSetMember\<close>) are not among the sources; entities are "persisted as
  key-value/hash/sorted-set documents". The database is its sorted sets, its group
  objects (\<open>group:<name>\<close>), its hashes and its sets, each by key.
\<close>

record group_data =
  g_name :: string
  g_slug :: string
  g_createtime :: int
  g_userTitle :: string
  g_userTitleEnabled :: int
  g_description :: string
  g_memberCount :: int
  g_hidden :: int
  g_system :: int
  g_private :: int
  g_disableJoinRequests :: int
  g_disableLeave :: int

record forum_db =
  sorted_sets :: "string \<Rightarrow> sorted_set"
  group_objects :: "string \<rightharpoonup> group_data"
  hashes :: "string \<Rightarrow> (string \<times> string) list"
  plain_sets :: "string \<Rightarrow> string list"

definition db_sortedSetAdd :: "string \<Rightarrow> int \<Rightarrow> string \<Rightarrow> forum_db \<Rightarrow> forum_db" where
  "db_sortedSetAdd key score v db =
     db\<lparr>sorted_sets := (sorted_sets db)(key := sortedSetAdd score v (sorted_sets db key))\<rparr>"

definition db_isSortedSetMember :: "string \<Rightarrow> string \<Rightarrow> forum_db \<Rightarrow> bool" where
  "db_isSortedSetMember key v db \<longleftrightarrow> v \<in> fst ` set (sorted_sets db key)"

definition db_setObject :: "string \<Rightarrow> group_data \<Rightarrow> forum_db \<Rightarrow> forum_db" where
  "db_setObject key obj db = db\<lparr>group_objects := (group_objects db)(key \<mapsto> obj)\<rparr>"

definition db_setObjectField :: "string \<Rightarrow> string \<Rightarrow> string \<Rightarrow> forum_db \<Rightarrow> forum_db" where
  "db_setObjectField key field v db =
     db\<lparr>hashes := (hashes db)(key := assign_key field v (hashes db key))\<rparr>"

definition db_setAdd :: "string \<Rightarrow> string \<Rightarrow> forum_db \<Rightarrow> forum_db" where
  "db_setAdd key v db =
     db\<lparr>plain_sets := (plain_sets db)(key := List.insert v (plain_sets db key))\<rparr>"

fun db_sortedSetAddBulk :: "(string \<times> int \<times> string) list \<Rightarrow> forum_db \<Rightarrow> forum_db" where
  "db_sortedSetAddBulk [] db = db"
| "db_sortedSetAddBulk ((key, score, v) # items) db =
     db_sortedSetAddBulk items (db_sortedSetAdd key score v db)"

text \<open>
  The argument of \<open>Groups.create\<close>. The name is any value. Each flag that the code reads
  as \<open>parseInt(data.x, 10) === 1\<close> is that test's outcome; \<open>data_system\<close> is
  \<open>data.system === true || parseInt(data.system, 10) === 1\<close>; \<open>data_private\<close> is \<open>None\<close> when
  the property is absent or \<open>undefined\<close>; an option is \<open>None\<close> when the property is absent
  (\<open>ownerUid\<close>) or falsy (\<open>timestamp\<close>, \<open>userTitle\<close>, \<open>description\<close>).
\<close>

record group_create_data =
  data_name :: jsval
  data_timestamp :: "int option"
  data_ownerUid :: "nat option"
  data_system :: bool
  data_hidden :: bool
  data_private :: "bool option"
  data_disableJoinRequests :: bool
  data_disableLeave :: bool
  data_userTitle :: "string option"
  data_userTitleEnabled :: bool
  data_description :: "string option"

record groups_config =
  maximumGroupNameLength :: int

text \<open>
  What group creation takes from the rest of the forum, none of it among the sources:
  \<open>Groups.isPrivilegeGroup\<close>, \<open>Groups.systemGroups\<close>, \<open>Groups.getGroupData\<close>, \<open>slugify\<close>,
  \<open>meta.slugTaken\<close> (a read of the database that may throw), the two plugin hooks
  \<open>filter:group.create\<close> (which may change the group data in place) and
  \<open>action:group.create\<close>, and \<open>String.prototype.toLowerCase\<close>.
\<close>

record groups_env =
  isPrivilegeGroup :: "jsval \<Rightarrow> bool"
  systemGroups :: "string list"
  slugify :: "string \<Rightarrow> string"
  toLowerCase :: "string \<Rightarrow> string"
  slugTaken :: "string \<Rightarrow> forum_db \<Rightarrow> js_error + bool"
  filter_group_create :: "group_data \<Rightarrow> group_create_data \<Rightarrow> (group_data, forum_db) action"
  getGroupData :: "string \<Rightarrow> (group_data, forum_db) action"
  action_group_create :: "group_data \<Rightarrow> (unit, forum_db) action"

text \<open>\<open>Groups.validateGroupName\<close>: it returns, or throws.\<close>

definition validateGroupName :: "groups_env \<Rightarrow> groups_config \<Rightarrow> jsval \<Rightarrow> js_error + unit" where
  "validateGroupName env cfg name =
     (if \<not> truthy name then Inl (Error ''[[error:group-name-too-short]]'')
      else
        (case name of
           JStr s \<Rightarrow>
             if \<not> isPrivilegeGroup env name \<and> int (length s) > maximumGroupNameLength cfg
             then Inl (Error ''[[error:group-name-too-long]]'')
             else if s = ''guests'' \<or> (\<not> isPrivilegeGroup env name \<and> CHR '':'' \<in> set s)
             then Inl (Error ''[[error:invalid-group-name]]'')
             else if CHR ''/'' \<in> set s \<or> slugify env s = []
             then Inl (Error ''[[error:invalid-group-name]]'')
             else Inr ()
         | _ \<Rightarrow> Inl (Error ''[[error:invalid-group-name]]'')))"

text \<open>The name once validation has let it through: a string.\<close>

fun name_string :: "jsval \<Rightarrow> string" where
  "name_string (JStr s) = s"
| "name_string _ = []"

text \<open>
  \<open>validateGroupCreation\<close>. The array handed to \<open>Promise.all\<close> is built first: the call of
  \<open>meta.slugTaken\<close> starts, then the membership in \<open>groups:createtime\<close> is awaited for a
  privilege group. Both only read.
\<close>

definition validateGroupCreation ::
  "groups_env \<Rightarrow> groups_config \<Rightarrow> group_create_data \<Rightarrow> forum_db \<Rightarrow> js_error + unit" where
  "validateGroupCreation env cfg data db =
     (case validateGroupName env cfg (data_name data) of
        Inl e \<Rightarrow> Inl e
      | Inr _ \<Rightarrow>
          (let privGroupExists =
                 (isPrivilegeGroup env (data_name data) \<and>
                  db_isSortedSetMember ''groups:createtime'' (name_string (data_name data)) db)
           in case slugTaken env (name_string (data_name data)) db of
                Inl e \<Rightarrow> Inl e
              | Inr exists \<Rightarrow>
                  if exists \<or> privGroupExists then Inl (Error ''[[error:group-already-exists]]'')
                  else Inr ()))"

record group_config =
  isSystem :: bool
  timestamp :: int
  disableJoinRequests :: int
  disableLeave :: int
  isHidden :: bool
  isPrivate :: bool
  memberCount :: int

definition isSystemGroup :: "groups_env \<Rightarrow> group_create_data \<Rightarrow> bool" where
  "isSystemGroup env data \<longleftrightarrow>
     data_system data \<or> data_name data \<in> JStr ` set (systemGroups env) \<or>
     isPrivilegeGroup env (data_name data)"

definition prepareGroupConfig :: "groups_env \<Rightarrow> int \<Rightarrow> group_create_data \<Rightarrow> group_config" where
  "prepareGroupConfig env now data =
     \<lparr>isSystem = isSystemGroup env data,
      timestamp = (case data_timestamp data of None \<Rightarrow> now | Some t \<Rightarrow> t),
      disableJoinRequests =
        (if data_name data = JStr ''administrators'' then 1
         else if data_disableJoinRequests data then 1 else 0),
      disableLeave = (if data_disableLeave data then 1 else 0),
      isHidden = data_hidden data,
      isPrivate = (case data_private data of None \<Rightarrow> True | Some b \<Rightarrow> b),
      memberCount = (case data_ownerUid data of None \<Rightarrow> 0 | Some _ \<Rightarrow> 1)\<rparr>"

definition buildGroupData :: "groups_env \<Rightarrow> group_create_data \<Rightarrow> group_config \<Rightarrow> group_data" where
  "buildGroupData env data config =
     \<lparr>g_name = name_string (data_name data),
      g_slug = slugify env (name_string (data_name data)),
      g_createtime = timestamp config,
      g_userTitle = (case data_userTitle data of None \<Rightarrow> name_string (data_name data) | Some t \<Rightarrow> t),
      g_userTitleEnabled = (if data_userTitleEnabled data then 1 else 0),
      g_description = (case data_description data of None \<Rightarrow> [] | Some d \<Rightarrow> d),
      g_memberCount = memberCount config,
      g_hidden = (if isHidden config then 1 else 0),
      g_system = (if isSystem config then 1 else 0),
      g_private = (if isPrivate config then 1 else 0),
      g_disableJoinRequests = disableJoinRequests config,
      g_disableLeave = disableLeave config\<rparr>"

definition persistGroupData :: "group_data \<Rightarrow> forum_db \<Rightarrow> forum_db" where
  "persistGroupData groupData db =
     db_setObject (''group:'' @ g_name groupData) groupData
       (db_sortedSetAdd ''groups:createtime'' (g_createtime groupData) (g_name groupData) db)"

definition addGroupOwner :: "string \<Rightarrow> nat \<Rightarrow> int \<Rightarrow> forum_db \<Rightarrow> forum_db" where
  "addGroupOwner groupName ownerUid ts db =
     db_sortedSetAdd (''group:'' @ groupName @ '':members'') ts (decimal ownerUid)
       (db_setAdd (''group:'' @ groupName @ '':owners'') (decimal ownerUid) db)"

definition addToVisibleGroups :: "groups_env \<Rightarrow> group_data \<Rightarrow> forum_db \<Rightarrow> forum_db" where
  "addToVisibleGroups env groupData db =
     db_sortedSetAddBulk
       [(''groups:visible:createtime'', g_createtime groupData, g_name groupData),
        (''groups:visible:memberCount'', g_memberCount groupData, g_name groupData),
        (''groups:visible:name'', 0, toLowerCase env (g_name groupData) @ '':'' @ g_name groupData)]
       db"

definition storeGroupSlug :: "group_data \<Rightarrow> forum_db \<Rightarrow> forum_db" where
  "storeGroupSlug groupData db =
     db_setObjectField ''groupslug:groupname'' (g_slug groupData) (g_name groupData) db"

text \<open>\<open>processGroupCreation\<close>, which is all of \<open>Groups.create\<close>; \<open>now\<close> is \<open>Date.now()\<close>.\<close>

definition processGroupCreation ::
  "groups_env \<Rightarrow> groups_config \<Rightarrow> int \<Rightarrow> group_create_data \<Rightarrow> (group_data, forum_db) action" where
  "processGroupCreation env cfg now data db =
     (let groupConfig = prepareGroupConfig env now data
      in case validateGroupCreation env cfg data db of
           Inl e \<Rightarrow> (Inl e, db)
         | Inr _ \<Rightarrow>
             js_bind (filter_group_create env (buildGroupData env data groupConfig) data) (\<lambda>groupData.
             js_bind (\<lambda>d. (Inr (), persistGroupData groupData d)) (\<lambda>_.
             js_bind (\<lambda>d. (Inr (), case data_ownerUid data of
                                      None \<Rightarrow> d
                                    | Some ownerUid \<Rightarrow>
                                        addGroupOwner (g_name groupData) ownerUid (g_createtime groupData) d)) (\<lambda>_.
             js_bind (\<lambda>d. (Inr (), if \<not> isHidden groupConfig \<and> \<not> isSystem groupConfig
                                    then addToVisibleGroups env groupData d else d)) (\<lambda>_.
             js_bind (\<lambda>d. (Inr (), if \<not> isPrivilegeGroup env (JStr (g_name groupData))
                                    then storeGroupSlug groupData d else d)) (\<lambda>_.
             js_bind (getGroupData env (g_name groupData)) (\<lambda>stored.
             js_bind (action_group_create env stored) (\<lambda>_.
             js_return stored)))))))
           db)"

definition Groups_create ::
  "groups_env \<Rightarrow> groups_config \<Rightarrow> int \<Rightarrow> group_create_data \<Rightarrow> (group_data, forum_db) action" where
  "Groups_create env cfg now data = processGroupCreation env cfg now data"

text \<open>
  An environment to run group creation in: privilege groups are the names starting with
  \<open>cid:\<close>, the slug of a name is the name without its spaces, a slug is taken when the
  hash \<open>groupslug:groupname\<close> has it, hooks change nothing, and the group data are read
  back from the group object.
\<close>

definition sample_groups_env :: groups_env where
  "sample_groups_env =
     \<lparr>isPrivilegeGroup = (\<lambda>v. case v of JStr s \<Rightarrow> take 4 s = ''cid:'' | _ \<Rightarrow> False),
      systemGroups = [''registered-users'', ''administrators'', ''Global Moderators''],
      slugify = filter (\<lambda>c. c \<noteq> CHR '' ''),
      toLowerCase = (\<lambda>s. s),
      slugTaken = (\<lambda>name db. Inr (filter (\<lambda>c. c \<noteq> CHR '' '') name \<in> fst ` set (hashes db ''groupslug:groupname''))),
      filter_group_create = (\<lambda>g data. js_return g),
      getGroupData = (\<lambda>name db.
         case group_objects db (''group:'' @ name) of
           None \<Rightarrow> (Inl (Error ''[[error:no-group]]''), db)
         | Some g \<Rightarrow> (Inr g, db)),
      action_group_create = (\<lambda>g. js_return ())\<rparr>"

definition sample_group :: "jsval \<Rightarrow> group_create_data" where
  "sample_group name =
     \<lparr>data_name = name, data_timestamp = None, data_ownerUid = None, data_system = False,
      data_hidden = False, data_private = None, data_disableJoinRequests = False,
      data_disableLeave = False, data_userTitle = None, data_userTitleEnabled = False,
      data_description = None\<rparr>"

text \<open>A database in which the group \<open>staff\<close> and the privilege group
  \<open>cid:1:privileges:find\<close> exist already.\<close>

definition staff_db :: forum_db where
  "staff_db =
     \<lparr>sorted_sets = (\<lambda>k. if k = ''groups:createtime''
                           then [(''staff'', 10), (''cid:1:privileges:find'', 11)] else []),
      group_objects = Map.empty,
      hashes = (\<lambda>k. if k = ''groupslug:groupname'' then [(''staff'', ''staff'')] else []),
      plain_sets = (\<lambda>k. [])\<rparr>"

section \<open>Moderation controllers\<close>

text \<open>
  What a controller does to its arguments, in order: the calls on the response, on
  \<open>next\<close>, on \<open>done\<close> (with the error it is given, if any) and on \<open>console.error\<close>. \<open>next\<close> is
  only ever called without an argument.
\<close>

datatype event =
    NotAllowed
  | SetLocalsCids "nat list"
  | Render string
  | Next
  | Done "js_error option"
  | ConsoleError js_error

definition emit :: "event \<Rightarrow> (unit, event list) action" where
  "emit ev tr = (Inr (), tr @ [ev])"

text \<open>\<open>await\<close> of a call whose outcome the environment fixes.\<close>

definition await :: "js_error + 'a \<Rightarrow> ('a, event list) action" where
  "await r tr = (case r of Inl e \<Rightarrow> (Inl e, tr) | Inr x \<Rightarrow> (Inr x, tr))"

text \<open>
  A promise made by a call that runs beside others: the environment fixes the time at
  which it settles and its outcome.
\<close>

type_synonym 'a promise = "nat \<times> (js_error + 'a)"

text \<open>
  \<open>Promise.all\<close> of two promises, and of more by nesting. Its members are promises of
  calls already made, so every member runs whatever the others do. It fulfils when both
  members have, with both values, and it rejects as soon as one member rejects, with
  that member's error: of two rejections the earlier in time is the one thrown at the
  \<open>await\<close>, and the later one reaches no handler. Two members that reject at the same
  time are taken in the order of the array. \<open>utils.promiseParallel\<close> is \<open>Promise.all\<close>
  over the values of its object.
\<close>

definition promise_all :: "'a promise \<Rightarrow> 'b promise \<Rightarrow> ('a \<times> 'b) promise" where
  "promise_all p q =
     (case snd p of
        Inr a \<Rightarrow>
          (case snd q of
             Inr b \<Rightarrow> (max (fst p) (fst q), Inr (a, b))
           | Inl e \<Rightarrow> (fst q, Inl e))
      | Inl e \<Rightarrow>
          (case snd q of
             Inr b \<Rightarrow> (fst p, Inl e)
           | Inl e' \<Rightarrow> if fst p \<le> fst q then (fst p, Inl e) else (fst q, Inl e')))"

definition await_promise :: "'a promise \<Rightarrow> ('a, event list) action" where
  "await_promise p = await (snd p)"

text \<open>\<open>done && done()\<close>: \<open>done\<close> is an optional last argument.\<close>

definition call_done :: "bool \<Rightarrow> (unit, event list) action" where
  "call_done done = (if done then emit (Done None) else js_return ())"

text \<open>
  The frame every one of the three controllers has:
  \<open>(async () => { try { body } catch (err) { done ? done(err) : console.error(err); } })()\<close>.
\<close>

definition try_catch_done :: "bool \<Rightarrow> (unit, event list) action \<Rightarrow> event list" where
  "try_catch_done done body =
     (case body [] of
        (Inl err, tr) \<Rightarrow> tr @ [if done then Done (Some err) else ConsoleError err]
      | (Inr _, tr) \<Rightarrow> tr)"

text \<open>
  \<open>modsController.flags.list = function (req, res, done)\<close>. The environment gives the
  outcome of each call the body awaits or makes, and for the members of a \<open>Promise.all\<close>
  the time at which each settles.
\<close>

record list_env =
  l_isAdminOrGlobalMod :: "bool promise"
  l_getModeratedCids :: "nat list promise"
  l_validateFilters :: "unit promise"
  l_validateSort :: "unit promise"
  l_parseFilters :: "js_error + unit"
  l_flags_list :: "unit promise"
  l_getDailyStatsForSet :: "unit promise"
  l_getSelectedCategory :: "unit promise"
  l_getSelectedUsers :: "js_error + unit"
  l_render :: "js_error + unit"

definition flags_list_body :: "list_env \<Rightarrow> bool \<Rightarrow> (unit, event list) action" where
  "flags_list_body env done =
     js_bind (await_promise
                (promise_all (l_isAdminOrGlobalMod env)
                  (promise_all (l_getModeratedCids env)
                    (promise_all (l_validateFilters env) (l_validateSort env)))))
       (\<lambda>(isAdminOrGlobalMod, moderatedCids, _).
       if \<not> (isAdminOrGlobalMod \<or> moderatedCids \<noteq> [])
       then js_bind (emit NotAllowed) (\<lambda>_. call_done done)
       else
         js_bind (if \<not> isAdminOrGlobalMod \<and> moderatedCids \<noteq> []
                  then emit (SetLocalsCids moderatedCids) else js_return ()) (\<lambda>_.
         js_bind (await (l_parseFilters env)) (\<lambda>_.
         js_bind (await_promise
                    (promise_all (l_flags_list env)
                      (promise_all (l_getDailyStatsForSet env) (l_getSelectedCategory env)))) (\<lambda>_.
         js_bind (await (l_getSelectedUsers env)) (\<lambda>_.
         js_bind (await (l_render env)) (\<lambda>_.
         js_bind (emit (Render ''flags/list'')) (\<lambda>_.
         call_done done)))))))"

definition flags_list :: "list_env \<Rightarrow> bool \<Rightarrow> event list" where
  "flags_list env done = try_catch_done done (flags_list_body env done)"

text \<open>
  \<open>modsController.flags.detail = function (req, res, next, done)\<close>. \<open>flags.get\<close> gives the
  flag's type, or nothing when there is no such flag. The two calls of
  \<open>privileges[type].get\<close> are the members of the inner \<open>Promise.all\<close>. The local function
  \<open>getAssignees\<close> and the calls it makes are one outcome.
\<close>

record detail_env =
  d_isAdminOrGlobalMod :: "bool promise"
  d_getModeratedCids :: "nat list promise"
  d_flags_get :: "string option promise"
  d_privileges_global :: "unit promise"
  d_privileges_admin :: "unit promise"
  d_isMemberOfSortedSets :: "js_error + bool list"
  d_getAssignees :: "js_error + unit"
  d_getHistory :: "js_error + unit"
  d_render :: "js_error + unit"

definition flags_detail_rest :: "detail_env \<Rightarrow> bool \<Rightarrow> (unit, event list) action" where
  "flags_detail_rest env done =
     js_bind (await (d_getAssignees env)) (\<lambda>_.
     js_bind (await (d_getHistory env)) (\<lambda>_.
     js_bind (await (d_render env)) (\<lambda>_.
     js_bind (emit (Render ''flags/detail'')) (\<lambda>_.
     call_done done))))"

definition flags_detail_body :: "detail_env \<Rightarrow> bool \<Rightarrow> (unit, event list) action" where
  "flags_detail_body env done =
     js_bind (await_promise
                (promise_all (d_isAdminOrGlobalMod env)
                  (promise_all (d_getModeratedCids env)
                    (promise_all (d_flags_get env)
                      (promise_all (d_privileges_global env) (d_privileges_admin env))))))
       (\<lambda>(isAdminOrGlobalMod, moderatedCids, flagData, _).
       case flagData of
         None \<Rightarrow> emit Next
       | Some flag_type \<Rightarrow>
           if \<not> (isAdminOrGlobalMod \<or> moderatedCids \<noteq> []) then emit Next
           else if isAdminOrGlobalMod then flags_detail_rest env done
           else if flag_type = ''user'' then emit Next
           else if flag_type = ''post'' then
             js_bind (await (d_isMemberOfSortedSets env)) (\<lambda>isFlagInModeratedCids.
               if True \<notin> set isFlagInModeratedCids then emit Next
               else flags_detail_rest env done)
           else flags_detail_rest env done)"

definition flags_detail :: "detail_env \<Rightarrow> bool \<Rightarrow> event list" where
  "flags_detail env done = try_catch_done done (flags_detail_body env done)"

text \<open>
  \<open>modsController.postQueue = function (req, res, next, done)\<close>. \<open>posts.getQueuedPosts\<close> is
  awaited alone, then the five members of the \<open>Promise.all\<close>, the last of which is the
  inner \<open>Promise.all\<close> of the two calls of \<open>privileges[type].get\<close>. The filtering and
  mapping of the queued posts reads properties of each post and is one outcome.
\<close>

record queue_env =
  q_loggedIn :: bool
  q_getQueuedPosts :: "js_error + unit"
  q_isAdministrator :: "unit promise"
  q_isGlobalModerator :: "unit promise"
  q_getModeratedCids :: "unit promise"
  q_getSelectedCategory :: "unit promise"
  q_privileges_global :: "unit promise"
  q_privileges_admin :: "unit promise"
  q_filter_map :: "js_error + unit"
  q_hook :: "js_error + unit"
  q_render :: "js_error + unit"

definition postQueue_body :: "queue_env \<Rightarrow> bool \<Rightarrow> (unit, event list) action" where
  "postQueue_body env done =
     (if \<not> q_loggedIn env then js_bind (emit Next) (\<lambda>_. call_done done)
      else
        js_bind (await (q_getQueuedPosts env)) (\<lambda>_.
        js_bind (await_promise
                   (promise_all (q_isAdministrator env)
                     (promise_all (q_isGlobalModerator env)
                       (promise_all (q_getModeratedCids env)
                         (promise_all (q_getSelectedCategory env)
                           (promise_all (q_privileges_global env) (q_privileges_admin env))))))) (\<lambda>_.
        js_bind (await (q_filter_map env)) (\<lambda>_.
        js_bind (await (q_hook env)) (\<lambda>_.
        js_bind (await (q_render env)) (\<lambda>_.
        js_bind (emit (Render ''post-queue'')) (\<lambda>_.
        call_done done)))))))"

definition postQueue :: "queue_env \<Rightarrow> bool \<Rightarrow> event list" where
  "postQueue env done = try_catch_done done (postQueue_body env done)"

text \<open>
  A request for a flag by an administrator in which \<open>flags.get\<close> rejects, a request for
  the post queue by a logged-in user in which \<open>posts.getQueuedPosts\<close> rejects, and a
  request for the list of flags in which \<open>flags.list\<close> rejects.
\<close>

definition failing_detail_env :: detail_env where
  "failing_detail_env =
     \<lparr>d_isAdminOrGlobalMod = (1, Inr True), d_getModeratedCids = (1, Inr []),
      d_flags_get = (2, Inl (Error ''[[error:invalid-data]]'')),
      d_privileges_global = (1, Inr ()), d_privileges_admin = (1, Inr ()),
      d_isMemberOfSortedSets = Inr [], d_getAssignees = Inr (), d_getHistory = Inr (),
      d_render = Inr ()\<rparr>"

definition failing_queue_env :: queue_env where
  "failing_queue_env =
     \<lparr>q_loggedIn = True, q_getQueuedPosts = Inl (Error ''[[error:invalid-data]]''),
      q_isAdministrator = (1, Inr ()), q_isGlobalModerator = (1, Inr ()),
      q_getModeratedCids = (1, Inr ()), q_getSelectedCategory = (1, Inr ()),
      q_privileges_global = (1, Inr ()), q_privileges_admin = (1, Inr ()),
      q_filter_map = Inr (), q_hook = Inr (), q_render = Inr ()\<rparr>"

definition failing_list_env :: list_env where
  "failing_list_env =
     \<lparr>l_isAdminOrGlobalMod = (1, Inr True), l_getModeratedCids = (1, Inr []),
      l_validateFilters = (1, Inr ()), l_validateSort = (1, Inr ()), l_parseFilters = Inr (),
      l_flags_list = (2, Inl (Error ''[[error:invalid-data]]'')),
      l_getDailyStatsForSet = (1, Inr ()), l_getSelectedCategory = (1, Inr ()),
      l_getSelectedUsers = Inr (), l_render = Inr ()\<rparr>"

text \<open>An error reaches a continuation when \<open>done\<close> is called with it.\<close>

definition passed_on :: "js_error \<Rightarrow> event list \<Rightarrow> bool" where
  "passed_on e tr \<longleftrightarrow> Done (Some e) \<in> set tr"

section \<open>Readiness to post\<close>

text \<open>
  Modelled from the spec: \<open>User.isReadyToPost\<close> is not among the sources, only tests of
  it are. This is its standard rate limit as the claim and the test "should fail if the
  user posts too quickly" have it: a user whose \<open>lastposttime\<close> is set and lies less than
  \<open>postDelay\<close> seconds before now (times are in milliseconds) is rejected with the key
  \<open>too-many-posts\<close> and the delay.
\<close>

record post_config =
  postDelay :: int

definition isReadyToPost :: "post_config \<Rightarrow> int \<Rightarrow> int option \<Rightarrow> js_error + unit" where
  "isReadyToPost cfg now lastposttime =
     (case lastposttime of
        None \<Rightarrow> Inr ()
      | Some t \<Rightarrow>
          if now - t < postDelay cfg * 1000
          then Inl (Error (''[[error:too-many-posts, '' @ show_int (postDelay cfg) @ '']]''))
          else Inr ())"

section \<open>User search\<close>

text \<open>
  Two files hold \<open>User.search\<close>: \<open>src/user/search.js\<close>, whose \<open>filterAndSortUids\<close> is split
  into helpers, and a second file, whose \<open>User.search\<close> is split into helpers and whose
  \<open>filterAndSortUids\<close> is written in one piece. The functions \<open>findUids\<close>, \<open>sortUsers\<close> and
  \<open>searchByIP\<close> and the tables \<open>filterFnMap\<close> and \<open>filterFieldMap\<close> have the same text in
  both files and are modelled once; everything else is modelled per file, with the
  suffix \<open>_A\<close> for \<open>src/user/search.js\<close> and \<open>_B\<close> for the second file.
\<close>

subsection \<open>Numbers, objects and arrays\<close>










subsection \<open>The environment and the argument\<close>



text \<open>
  What a call that should give an array may give instead: \<open>undefined\<close> or \<open>null\<close>. A read
  of a property of either is a TypeError.
\<close>

datatype 'a nullable = Undefined | Null | Value 'a







subsection \<open>What both files share\<close>














subsection \<open>\<open>src/user/search.js\<close>\<close>










subsection \<open>The second file\<close>










subsection \<open>An environment to run the search in\<close>




chapter \<open>Properties\<close>

section \<open>Printing numbers\<close>

lemma decimal_digit: "n < 10 \<Longrightarrow> decimal n = [digit_char n]"
  by (subst decimal.simps) simp

lemma decimal_step: "\<not> n < 10 \<Longrightarrow> decimal n = decimal (n div 10) @ [digit_char (n mod 10)]"
  by (subst decimal.simps) simp

lemmas decimal_eval = decimal_digit decimal_step digit_char_def unsigned_str_def

lemma unsigned_str_halfway: "unsigned_str (17 / 2) = ''8.5''"
  by code_simp

section \<open>Scheduled jobs: what \<open>stopJobs\<close> and \<open>startJobs\<close> leave behind\<close>

lemma jobs_stop_each: "jobs (stop_each ks s) = filter (\<lambda>kv. fst kv \<notin> set ks) (jobs s)"
proof (induction ks arbitrary: s)
  case Nil
  then show ?case by simp
next
  case (Cons k ks)
  show ?case
  proof (cases "map_of (jobs s) k")
    case None
    then have "k \<notin> fst ` set (jobs s)" by (simp add: map_of_eq_None_iff)
    then have "filter (\<lambda>kv. fst kv \<notin> set (k # ks)) (jobs s) = filter (\<lambda>kv. fst kv \<notin> set ks) (jobs s)"
      by (intro filter_cong) auto
    with None Cons show ?thesis by simp
  next
    case (Some j)
    then show ?thesis by (simp add: Cons delete_key_def conj_commute)
  qed
qed

lemma jobs_stopJobs: "jobs (stopJobs s) = []"
  by (simp add: stopJobs_def jobs_stop_each)

lemma next_id_stop_each: "next_id (stop_each ks s) = next_id s"
  by (induction ks arbitrary: s) (auto split: option.splits)

lemma next_id_stopJobs: "next_id (stopJobs s) = next_id s"
  by (simp add: stopJobs_def next_id_stop_each)

text \<open>One turn of the loop of \<open>stopJobs\<close> keeps registry and timers in step.\<close>

lemma stop_step_armed:
  assumes "armed_inv s" and "map_of (jobs s) k = Some j"
  shows "armed_inv (s\<lparr>timers := stop_timer j (timers s), jobs := delete_key k (jobs s)\<rparr>)"
proof -
  from assms have kj: "(k, j) \<in> set (jobs s)" by (simp add: map_of_SomeD)
  from assms have ts: "timers s = map snd (jobs s)" and dk: "distinct (map fst (jobs s))"
    and dt: "distinct (map job_id (timers s))"
    unfolding armed_inv_def by blast+
  from dt have di: "distinct (map (job_id \<circ> snd) (jobs s))" by (simp add: ts)
  have agree: "\<And>kv. kv \<in> set (jobs s) \<Longrightarrow> (fst kv \<noteq> k) = (job_id (snd kv) \<noteq> job_id j)"
  proof -
    fix kv assume m: "kv \<in> set (jobs s)"
    show "(fst kv \<noteq> k) = (job_id (snd kv) \<noteq> job_id j)"
    proof
      assume "fst kv \<noteq> k"
      then have "kv \<noteq> (k, j)" by auto
      with di m kj show "job_id (snd kv) \<noteq> job_id j"
        by (metis comp_apply distinct_map inj_onD snd_conv)
    next
      assume "job_id (snd kv) \<noteq> job_id j"
      then have "snd kv \<noteq> j" by auto
      with dk m kj show "fst kv \<noteq> k"
        by (metis eq_key_imp_eq_value prod.collapse)
    qed
  qed
  have "map snd (filter (\<lambda>kv. fst kv \<noteq> k) (jobs s)) =
        filter (\<lambda>t. job_id t \<noteq> job_id j) (map snd (jobs s))"
    by (simp add: filter_map comp_def agree cong: filter_cong)
  moreover have "distinct (map fst (filter (\<lambda>kv. fst kv \<noteq> k) (jobs s)))"
    using dk by (simp add: distinct_map_filter)
  moreover have "distinct (map job_id (filter (\<lambda>t. job_id t \<noteq> job_id j) (timers s)))"
    using dt by (simp add: distinct_map_filter)
  ultimately show ?thesis
    unfolding armed_inv_def by (simp add: stop_timer_def delete_key_def ts)
qed

lemma armed_stop_each: "armed_inv s \<Longrightarrow> armed_inv (stop_each ks s)"
  by (induction ks arbitrary: s) (auto split: option.splits intro: stop_step_armed)

lemma timers_stopJobs:
  assumes "armed_inv s"
  shows "timers (stopJobs s) = []"
proof -
  have "armed_inv (stopJobs s)"
    unfolding stopJobs_def using assms by (rule armed_stop_each)
  then have "timers (stopJobs s) = map snd (jobs (stopJobs s))"
    unfolding armed_inv_def by blast
  then show ?thesis by (simp add: jobs_stopJobs)
qed

text \<open>
  When the cron library accepts the four schedules, \<open>startJobs\<close> returns and leaves the
  four jobs.
\<close>

lemma startJobs_accepted:
  assumes "cron_rejects host (''0 '' @ template host (getDigesthour host configured) @ '' * * *'') = None"
    and "cron_rejects host (''0 '' @ template host (getDigesthour host configured) @ '' * * 0'') = None"
    and "cron_rejects host (''0 '' @ template host (getDigesthour host configured) @ '' 1 * *'') = None"
    and "cron_rejects host ''0 0 * * *'' = None"
  shows "startJobs host configured s =
     (Inr (),
      \<lparr>jobs = four_jobs (next_id s) (template host (getDigesthour host configured)),
       timers = timers (stopJobs s) @
                map snd (four_jobs (next_id s) (template host (getDigesthour host configured))),
       next_id = next_id s + 4\<rparr>)"
  using assms
  by (simp add: startJobs_def startDigestJob_def startResetCleanJob_def new_cronJob_def Let_def
      js_bind_def jobs_stopJobs next_id_stopJobs four_jobs_def)

text \<open>
  When it throws on the first schedule, \<open>startJobs\<close> throws that error and leaves what
  \<open>stopJobs\<close> left.
\<close>

lemma startJobs_rejected:
  assumes "cron_rejects host (''0 '' @ template host (getDigesthour host configured) @ '' * * *'') = Some e"
  shows "startJobs host configured s = (Inl e, stopJobs s)"
  using assms
  by (simp add: startJobs_def startDigestJob_def new_cronJob_def Let_def js_bind_def)

lemma jobs_inv_init: "jobs_inv init_jobs"
  by (simp add: init_jobs_def jobs_inv_def armed_inv_def)

lemma sample_accepts_whole:
  "sample_cron_rejects ''0 8 * * *'' = None \<and> sample_cron_rejects ''0 8 * * 0'' = None \<and>
   sample_cron_rejects ''0 8 1 * *'' = None \<and> sample_cron_rejects ''0 0 * * *'' = None"
  by (simp add: sample_cron_rejects_def cron_field_ok_def)

lemma sample_rejects_fraction:
  "sample_cron_rejects ''0 8.5 * * *'' = Some (Error ''Field (8.5) cannot be parsed'')"
  by (simp add: sample_cron_rejects_def cron_field_ok_def)

text \<open>
  So, from a state in which registry and timers agree, and for a configuration whose
  schedules the cron library accepts, \<open>startJobs\<close> leaves exactly the four jobs, armed,
  and none of the timers armed before.
\<close>

lemma startJobs_four_when_accepted:
  assumes "jobs_inv s"
    and "cron_rejects host (''0 '' @ template host (getDigesthour host configured) @ '' * * *'') = None"
    and "cron_rejects host (''0 '' @ template host (getDigesthour host configured) @ '' * * 0'') = None"
    and "cron_rejects host (''0 '' @ template host (getDigesthour host configured) @ '' 1 * *'') = None"
    and "cron_rejects host ''0 0 * * *'' = None"
  shows "fst (startJobs host configured s) = Inr () \<and>
         jobs (snd (startJobs host configured s)) =
           four_jobs (next_id s) (template host (getDigesthour host configured)) \<and>
         timers (snd (startJobs host configured s)) = map snd (jobs (snd (startJobs host configured s))) \<and>
         jobs_inv (snd (startJobs host configured s)) \<and>
         (\<forall>j \<in> set (timers s). j \<notin> set (timers (snd (startJobs host configured s))))"
proof -
  from assms(1) have a: "armed_inv s" and lt: "\<forall>j \<in> set (timers s). job_id j < next_id s"
    by (simp_all add: jobs_inv_def list_all_iff)
  have t: "timers (stopJobs s) = []" using a by (rule timers_stopJobs)
  note eq = startJobs_accepted [OF assms(2-5), of s]
  have "jobs_inv (snd (startJobs host configured s))"
    by (simp add: eq t jobs_inv_def armed_inv_def four_jobs_def)
  moreover have "\<forall>j \<in> set (timers s). j \<notin> set (timers (snd (startJobs host configured s)))"
    using lt by (auto simp: eq t four_jobs_def)
  ultimately show ?thesis by (simp add: eq t)
qed

lemma sample_jobs_host_fields:
  "template sample_jobs_host = print_val" "cron_rejects sample_jobs_host = sample_cron_rejects"
  "parse_number sample_jobs_host = (\<lambda>v. if v = JStr [] then Fin 0 else NaN)"
  by (simp_all add: sample_jobs_host_def)

lemma getDigesthour_in_range:
  "0 \<le> r \<Longrightarrow> r \<le> 23 \<Longrightarrow> getDigesthour host (JNum (Fin r)) = JNum (Fin r)"
  by (simp add: getDigesthour_def num_greater_def)

text \<open>
  Claim C5. \<open>User.startJobs\<close> does not register four jobs at every invocation. With a
  configured digest hour of 8 it returns and leaves the four jobs \<open>digest.daily\<close>,
  \<open>digest.weekly\<close>, \<open>digest.monthly\<close> and \<open>reset.clean\<close>. Called again after the
  configured hour was set to 8.5, \<open>getDigesthour\<close> returns 8.5, \<open>stopJobs\<close> stops and
  removes the four jobs, the first schedule is \<open>0 8.5 * * *\<close>, the constructor of the cron
  library throws on it, and \<open>startJobs\<close> throws with an empty registry and no timer armed.
\<close>

theorem startJobs_fractional_hour_leaves_no_job:
  "startJobs sample_jobs_host (JNum (Fin 8)) init_jobs =
     (Inr (), \<lparr>jobs = four_jobs 0 ''8'', timers = map snd (four_jobs 0 ''8''), next_id = 4\<rparr>) \<and>
   getDigesthour sample_jobs_host (JNum (Fin (17 / 2))) = JNum (Fin (17 / 2)) \<and>
   startJobs sample_jobs_host (JNum (Fin (17 / 2)))
       \<lparr>jobs = four_jobs 0 ''8'', timers = map snd (four_jobs 0 ''8''), next_id = 4\<rparr> =
     (Inl (Error ''Field (8.5) cannot be parsed''), \<lparr>jobs = [], timers = [], next_id = 4\<rparr>)"
proof -
  let ?s = "\<lparr>jobs = four_jobs 0 ''8'', timers = map snd (four_jobs 0 ''8''), next_id = 4\<rparr>"
  have a: "startJobs sample_jobs_host (JNum (Fin 8)) init_jobs = (Inr (), ?s)"
    by (subst startJobs_accepted)
      (simp_all add: getDigesthour_in_range sample_jobs_host_fields decimal_eval sample_accepts_whole
        init_jobs_def stopJobs_def)
  have b: "getDigesthour sample_jobs_host (JNum (Fin (17 / 2))) = JNum (Fin (17 / 2))"
    by (simp add: getDigesthour_in_range)
  have "armed_inv ?s" by (simp add: armed_inv_def four_jobs_def)
  then have t: "timers (stopJobs ?s) = []" by (rule timers_stopJobs)
  have "stopJobs ?s = \<lparr>jobs = [], timers = [], next_id = 4\<rparr>"
    using t jobs_stopJobs [of ?s] next_id_stopJobs [of ?s]
    by (cases "stopJobs ?s") simp
  moreover have "startJobs sample_jobs_host (JNum (Fin (17 / 2))) ?s =
     (Inl (Error ''Field (8.5) cannot be parsed''), stopJobs ?s)"
    by (rule startJobs_rejected)
      (simp add: b sample_jobs_host_fields unsigned_str_halfway sample_rejects_fraction)
  ultimately show ?thesis using a b by simp
qed

section \<open>The digest hour\<close>

text \<open>On a number \<open>getDigesthour\<close> tests NaN and the range, and nothing else.\<close>

lemma getDigesthour_number:
  "getDigesthour host (JNum d) =
     (if isNaN d then JNum (Fin 17)
      else if num_less d (Fin 0) \<or> num_greater d (Fin 23) then JNum (Fin 0)
      else JNum d)"
  by (auto simp: getDigesthour_def)

text \<open>
  Claim C10. \<open>getDigesthour\<close> does not always yield a valid hour of day. The configured
  value 8.5 is a number between 0 and 23, so it is returned as it is; \<open>null\<close> and \<open>true\<close>
  convert to 0 and 1 inside \<open>isNaN\<close> and the comparisons, and the empty string to 0, so
  they are returned as they are, not replaced by 17. For the configured hour 8.5 the
  schedule that \<open>User.startJobs\<close> prints is \<open>0 8.5 * * *\<close>, on which the constructor of the
  cron library throws: no digest job is scheduled.
\<close>

theorem getDigesthour_returns_invalid_hour:
  "getDigesthour host (JNum (Fin (17 / 2))) = JNum (Fin (17 / 2)) \<and>
   getDigesthour host JNull = JNull \<and>
   getDigesthour host (JBool True) = JBool True \<and>
   getDigesthour sample_jobs_host (JStr []) = JStr [] \<and>
   ''0 '' @ template sample_jobs_host (getDigesthour sample_jobs_host (JNum (Fin (17 / 2)))) @ '' * * *'' =
     ''0 8.5 * * *'' \<and>
   startJobs sample_jobs_host (JNum (Fin (17 / 2))) init_jobs =
     (Inl (Error ''Field (8.5) cannot be parsed''), init_jobs)"
proof -
  have a: "getDigesthour host (JNum (Fin (17 / 2))) = JNum (Fin (17 / 2))" for host
    by (simp add: getDigesthour_in_range)
  have h: "template sample_jobs_host (getDigesthour sample_jobs_host (JNum (Fin (17 / 2)))) = ''8.5''"
    by (simp add: a sample_jobs_host_fields unsigned_str_halfway)
  have "startJobs sample_jobs_host (JNum (Fin (17 / 2))) init_jobs =
     (Inl (Error ''Field (8.5) cannot be parsed''), stopJobs init_jobs)"
    by (rule startJobs_rejected)
      (simp add: a sample_jobs_host_fields unsigned_str_halfway sample_rejects_fraction)
  moreover have "stopJobs init_jobs = init_jobs"
    by (simp add: stopJobs_def init_jobs_def)
  moreover have "getDigesthour sample_jobs_host (JStr []) = JStr []"
    by (simp add: getDigesthour_def sample_jobs_host_fields num_greater_def)
  moreover have "getDigesthour host JNull = JNull" "getDigesthour host (JBool True) = JBool True"
    by (simp_all add: getDigesthour_def num_greater_def)
  ultimately show ?thesis using a h by simp
qed

section \<open>The sorted-set adapter\<close>

lemma add_keys_eq:
  assumes "isArr \<longrightarrow> (\<exists>xs. sc = JArr xs \<and> length xs = length ks)"
  shows "add_keys host ks isArr sc v i bulk =
     Inr (bulk @ map (\<lambda>j. \<lparr>find_key = ks ! j, find_value = v,
                            set_score = parseFloat host
                              (if isArr then (case sc of JArr xs \<Rightarrow> xs ! j | _ \<Rightarrow> sc) else sc)\<rparr>)
                   [i..<length ks])"
proof (induction "length ks - i" arbitrary: i bulk)
  case 0
  then show ?case by (subst add_keys.simps) simp
next
  case (Suc n)
  then have lt: "i < length ks" and n: "n = length ks - (i + 1)" by simp_all
  show ?case
    using assms lt Suc.hyps(1) [OF n]
    by (subst add_keys.simps) (auto simp: upt_conv_Cons)
qed

lemma add_keys_single:
  "add_keys host ks False sc v 0 [] =
     Inr (map (\<lambda>j. \<lparr>find_key = ks ! j, find_value = v, set_score = parseFloat host sc\<rparr>)
            [0..<length ks])"
  by (simp add: add_keys_eq)

lemma add_keys_array:
  "length xs = length ks \<Longrightarrow>
   add_keys host ks True (JArr xs) v 0 [] =
     Inr (map (\<lambda>j. \<lparr>find_key = ks ! j, find_value = v, set_score = parseFloat host (xs ! j)\<rparr>)
            [0..<length ks])"
  by (simp add: add_keys_eq)

lemma add_items_triples:
  "list_all (\<lambda>(k, sc, v). isNumber host sc) triples \<Longrightarrow>
   add_items host (map (\<lambda>(k, sc, v). JArr [k, sc, v]) triples) bulk =
     Inr (bulk @ map (\<lambda>(k, sc, v). \<lparr>find_key = k, find_value = String_of host v,
                                     set_score = parseFloat host sc\<rparr>) triples)"
  by (induction triples arbitrary: bulk) auto

text \<open>
  Claim C1. A call of \<open>sortedSetsAdd\<close> with a non-empty array of keys and valid scores (an
  array of as many numbers as there are keys, or a single number) executes exactly one
  bulk write, on the collection \<open>objects\<close>: one upsert per index \<open>i\<close>, selecting
  \<open>{_key: keys[i], value: String(value)}\<close> and setting the score to \<open>parseFloat\<close> of the
  \<open>i\<close>-th score, or of the single score. Likewise \<open>sortedSetAddBulk\<close>, on a non-empty
  array of triples \<open>[key, score, value]\<close> whose scores are numbers, executes exactly one
  bulk write with one such upsert per triple, in order.
\<close>

theorem sortedSetsAdd_one_bulk_write:
  "(ks \<noteq> [] \<and> length xs = length ks \<and> list_all (isNumber host) xs \<longrightarrow>
      sortedSetsAdd host (JArr ks) (JArr xs) v db =
        (Inr (), db\<lparr>executed := executed db @
           [\<lparr>collection = ''objects'',
             ops = map (\<lambda>i. \<lparr>find_key = ks ! i, find_value = String_of host v,
                              set_score = parseFloat host (xs ! i)\<rparr>) [0..<length ks]\<rparr>]\<rparr>)) \<and>
   (ks \<noteq> [] \<and> \<not> isArray score \<and> isNumber host score \<longrightarrow>
      sortedSetsAdd host (JArr ks) score v db =
        (Inr (), db\<lparr>executed := executed db @
           [\<lparr>collection = ''objects'',
             ops = map (\<lambda>i. \<lparr>find_key = ks ! i, find_value = String_of host v,
                              set_score = parseFloat host score\<rparr>) [0..<length ks]\<rparr>]\<rparr>)) \<and>
   (triples \<noteq> [] \<and> list_all (\<lambda>(k, sc, v). isNumber host sc) triples \<longrightarrow>
      sortedSetAddBulk host (JArr (map (\<lambda>(k, sc, v). JArr [k, sc, v]) triples)) db =
        (Inr (), db\<lparr>executed := executed db @
           [\<lparr>collection = ''objects'',
             ops = map (\<lambda>(k, sc, v). \<lparr>find_key = k, find_value = String_of host v,
                                       set_score = parseFloat host sc\<rparr>) triples\<rparr>]\<rparr>))"
proof (intro conjI impI)
  assume "ks \<noteq> [] \<and> length xs = length ks \<and> list_all (isNumber host) xs"
  then show "sortedSetsAdd host (JArr ks) (JArr xs) v db =
        (Inr (), db\<lparr>executed := executed db @
           [\<lparr>collection = ''objects'',
             ops = map (\<lambda>i. \<lparr>find_key = ks ! i, find_value = String_of host v,
                              set_score = parseFloat host (xs ! i)\<rparr>) [0..<length ks]\<rparr>]\<rparr>)"
    by (simp add: sortedSetsAdd_def normalizeScores_def add_keys_array valueToString_def execute_def)
next
  assume "ks \<noteq> [] \<and> \<not> isArray score \<and> isNumber host score"
  then show "sortedSetsAdd host (JArr ks) score v db =
        (Inr (), db\<lparr>executed := executed db @
           [\<lparr>collection = ''objects'',
             ops = map (\<lambda>i. \<lparr>find_key = ks ! i, find_value = String_of host v,
                              set_score = parseFloat host score\<rparr>) [0..<length ks]\<rparr>]\<rparr>)"
    by (cases score)
      (simp_all add: sortedSetsAdd_def normalizeScores_def add_keys_single valueToString_def execute_def)
next
  assume "triples \<noteq> [] \<and> list_all (\<lambda>(k, sc, v). isNumber host sc) triples"
  then show "sortedSetAddBulk host (JArr (map (\<lambda>(k, sc, v). JArr [k, sc, v]) triples)) db =
        (Inr (), db\<lparr>executed := executed db @
           [\<lparr>collection = ''objects'',
             ops = map (\<lambda>(k, sc, v). \<lparr>find_key = k, find_value = String_of host v,
                                       set_score = parseFloat host sc\<rparr>) triples\<rparr>]\<rparr>)"
    by (simp add: sortedSetAddBulk_def add_items_triples execute_def)
qed

text \<open>
  Two keys with two scores, two keys with one score, and two triples, on an empty
  database.
\<close>

theorem sortedSetsAdd_one_bulk_write_witness:
  "sortedSetsAdd sample_host (JArr [JStr ''a'', JStr ''b'']) (JArr [JNum (Fin 1), JNum (Fin 2)])
       (JNum (Fin 7)) \<lparr>executed = []\<rparr> =
     (Inr (), \<lparr>executed = [\<lparr>collection = ''objects'',
        ops = [\<lparr>find_key = JStr ''a'', find_value = ''7'', set_score = Fin 1\<rparr>,
               \<lparr>find_key = JStr ''b'', find_value = ''7'', set_score = Fin 2\<rparr>]\<rparr>]\<rparr>) \<and>
   sortedSetsAdd sample_host (JArr [JStr ''a'', JStr ''b'']) (JNum (Fin 5))
       (JStr ''v'') \<lparr>executed = []\<rparr> =
     (Inr (), \<lparr>executed = [\<lparr>collection = ''objects'',
        ops = [\<lparr>find_key = JStr ''a'', find_value = ''v'', set_score = Fin 5\<rparr>,
               \<lparr>find_key = JStr ''b'', find_value = ''v'', set_score = Fin 5\<rparr>]\<rparr>]\<rparr>) \<and>
   sortedSetAddBulk sample_host
       (JArr [JArr [JStr ''a'', JNum (Fin 1), JStr ''x''], JArr [JStr ''b'', JNum (Fin 2), JStr ''y'']])
       \<lparr>executed = []\<rparr> =
     (Inr (), \<lparr>executed = [\<lparr>collection = ''objects'',
        ops = [\<lparr>find_key = JStr ''a'', find_value = ''x'', set_score = Fin 1\<rparr>,
               \<lparr>find_key = JStr ''b'', find_value = ''y'', set_score = Fin 2\<rparr>]\<rparr>]\<rparr>)"
proof -
  have u: "[0..<2] = [0, 1]" by (simp add: upt_conv_Cons)
  note t = sortedSetsAdd_one_bulk_write
    [where ks = "[JStr ''a'', JStr ''b'']" and xs = "[JNum (Fin 1), JNum (Fin 2)]"
       and host = sample_host and score = "JNum (Fin 5)" and db = "\<lparr>executed = []\<rparr>"
       and triples = "[(JStr ''a'', JNum (Fin 1), JStr ''x''), (JStr ''b'', JNum (Fin 2), JStr ''y'')]"]
  show ?thesis
    using t [where v = "JNum (Fin 7)", THEN conjunct1]
      t [where v = "JStr ''v''", THEN conjunct2, THEN conjunct1]
      t [where v = "JStr ''v''", THEN conjunct2, THEN conjunct2]
    by (simp add: sample_host_def u decimal_eval)
qed

lemma sortedSetsAdd_error_unchanged:
  "sortedSetsAdd host keys scores v db = (Inl e, db') \<Longrightarrow> db' = db"
  by (auto simp: sortedSetsAdd_def split: jsval.splits if_splits sum.splits prod.splits)

text \<open>
  Claim C2. On a non-empty array of keys, \<open>sortedSetsAdd\<close> throws
  \<open>[[error:invalid-data]]\<close> when \<open>scores\<close> is an array of another length than \<open>keys\<close>, and
  \<open>[[error:invalid-score, <scores>]]\<close> (with \<open>scores\<close> printed into the message) when
  \<open>scores\<close> is a single value that is not a number, or an array of the right length with an
  element that is not a number; the length is checked before the elements. Whenever the
  call throws, the database is as it was: no bulk write has been executed.
\<close>

theorem sortedSetsAdd_rejects_invalid_scores:
  "ks \<noteq> [] \<Longrightarrow>
   (length xs \<noteq> length ks \<longrightarrow>
      sortedSetsAdd host (JArr ks) (JArr xs) v db = (Inl (Error ''[[error:invalid-data]]''), db)) \<and>
   (length xs = length ks \<and> \<not> list_all (isNumber host) xs \<longrightarrow>
      sortedSetsAdd host (JArr ks) (JArr xs) v db =
        (Inl (Error (''[[error:invalid-score, '' @ String_of host (JArr xs) @ '']]'')), db)) \<and>
   (\<not> isArray score \<and> \<not> isNumber host score \<longrightarrow>
      sortedSetsAdd host (JArr ks) score v db =
        (Inl (Error (''[[error:invalid-score, '' @ String_of host score @ '']]'')), db)) \<and>
   (\<forall>e db'. sortedSetsAdd host (JArr ks) scores v db = (Inl e, db') \<longrightarrow> db' = db)"
proof (intro conjI impI allI)
  assume "ks \<noteq> []" and "length xs \<noteq> length ks"
  then show "sortedSetsAdd host (JArr ks) (JArr xs) v db = (Inl (Error ''[[error:invalid-data]]''), db)"
    by (simp add: sortedSetsAdd_def normalizeScores_def)
next
  assume "ks \<noteq> []" and "length xs = length ks \<and> \<not> list_all (isNumber host) xs"
  then show "sortedSetsAdd host (JArr ks) (JArr xs) v db =
        (Inl (Error (''[[error:invalid-score, '' @ String_of host (JArr xs) @ '']]'')), db)"
    by (simp add: sortedSetsAdd_def normalizeScores_def)
next
  assume "ks \<noteq> []" and "\<not> isArray score \<and> \<not> isNumber host score"
  then show "sortedSetsAdd host (JArr ks) score v db =
        (Inl (Error (''[[error:invalid-score, '' @ String_of host score @ '']]'')), db)"
    by (cases score) (simp_all add: sortedSetsAdd_def normalizeScores_def)
next
  fix e db'
  assume "sortedSetsAdd host (JArr ks) scores v db = (Inl e, db')"
  then show "db' = db" by (rule sortedSetsAdd_error_unchanged)
qed

text \<open>
  One score for two keys; two scores of which one is a string; a single string for a
  score. The database holds an earlier bulk write, and keeps exactly that.
\<close>

theorem sortedSetsAdd_rejects_invalid_scores_witness:
  "sortedSetsAdd sample_host (JArr [JStr ''a'', JStr ''b'']) (JArr [JNum (Fin 1)]) (JStr ''v'')
       \<lparr>executed = [\<lparr>collection = ''objects'', ops = []\<rparr>]\<rparr> =
     (Inl (Error ''[[error:invalid-data]]''), \<lparr>executed = [\<lparr>collection = ''objects'', ops = []\<rparr>]\<rparr>) \<and>
   sortedSetsAdd sample_host (JArr [JStr ''a'', JStr ''b'']) (JArr [JNum (Fin 1), JStr ''x'']) (JStr ''v'')
       \<lparr>executed = [\<lparr>collection = ''objects'', ops = []\<rparr>]\<rparr> =
     (Inl (Error ''[[error:invalid-score, 1,x]]''), \<lparr>executed = [\<lparr>collection = ''objects'', ops = []\<rparr>]\<rparr>) \<and>
   sortedSetsAdd sample_host (JArr [JStr ''a'', JStr ''b'']) (JStr ''x'') (JStr ''v'')
       \<lparr>executed = [\<lparr>collection = ''objects'', ops = []\<rparr>]\<rparr> =
     (Inl (Error ''[[error:invalid-score, x]]''), \<lparr>executed = [\<lparr>collection = ''objects'', ops = []\<rparr>]\<rparr>)"
proof -
  have ne: "[JStr ''a'', JStr ''b''] \<noteq> []" by simp
  note t = sortedSetsAdd_rejects_invalid_scores [OF ne, where host = sample_host and v = "JStr ''v''"
      and db = "\<lparr>executed = [\<lparr>collection = ''objects'', ops = []\<rparr>]\<rparr>" and score = "JStr ''x''"
      and scores = JNull]
  show ?thesis
    using t [where xs = "[JNum (Fin 1)]", THEN conjunct1]
      t [where xs = "[JNum (Fin 1), JStr ''x'']", THEN conjunct2, THEN conjunct1]
      t [where xs = "[]", THEN conjunct2, THEN conjunct2, THEN conjunct1]
    by (simp add: sample_host_def join_comma_def decimal_eval)
qed

section \<open>User sessions: the cap on sessions\<close>

text \<open>
  The value \<open>addSession\<close> hands to \<open>revokeSessionsAboveThreshold\<close> is a number, and on a
  number the function does nothing, whatever the cap.
\<close>

lemma revokeSessionsAboveThreshold_number:
  "revokeSessionsAboveThreshold cfg (SidNumber n) uid s = (Inr (), s)"
  by (simp add: revokeSessionsAboveThreshold_def)

text \<open>On the array of active session ids it would revoke the oldest ones down to the cap.\<close>

lemma revokeSessionsAboveThreshold_array:
  "0 < maxUserSessions cfg \<Longrightarrow> maxUserSessions cfg < int (length sids) \<Longrightarrow>
   revokeSessionsAboveThreshold cfg (SidArray sids) uid s =
     (Inr (), revokeSession (take (length sids - nat (maxUserSessions cfg)) sids) uid s)"
  by (simp add: revokeSessionsAboveThreshold_def nat_diff_distrib')

text \<open>
  Claim C9, at a failing input. With \<open>maxUserSessions = 1\<close>, a user whose session \<open>s1\<close> is
  live adds the session \<open>s2\<close>: \<open>addSession\<close> completes, and the user's sorted set then
  tracks both \<open>s1\<close> and \<open>s2\<close>, both live, which is more than \<open>maxUserSessions\<close>. Nothing was
  passed to \<open>revokeSession\<close>: the session store is as before.
\<close>

theorem addSession_exceeds_maxUserSessions:
  "fst (addSession \<lparr>maxUserSessions = 1\<rparr> 200 1 ''s2'' one_session) = Inr () \<and>
   getSortedSetRange_all
     (user_sessions (snd (addSession \<lparr>maxUserSessions = 1\<rparr> 200 1 ''s2'' one_session)) 1) =
     [''s1'', ''s2''] \<and>
   filter (expired (snd (addSession \<lparr>maxUserSessions = 1\<rparr> 200 1 ''s2'' one_session)) 1)
     [''s1'', ''s2''] = [] \<and>
   session_store (snd (addSession \<lparr>maxUserSessions = 1\<rparr> 200 1 ''s2'' one_session)) =
     session_store one_session"
  by (simp add: addSession_def cleanExpiredSessions_def one_session_def getSortedSetRange_all_def
      expired_def sortedSetRemove_def sortedSetAdd_def push_def revokeSessionsAboveThreshold_def
      Let_def)

section \<open>Profile pictures and covers: validation\<close>

lemma percent_not_digit_or_dot: "\<not> digit_or_dot percent"
  by (simp add: digit_or_dot_def percent_def)

lemma takeWhile_run:
  "list_all digit_or_dot a \<Longrightarrow> takeWhile digit_or_dot (a @ percent # r) = a"
  by (induction a) (simp_all add: percent_not_digit_or_dot)

lemma dropWhile_run:
  "list_all digit_or_dot a \<Longrightarrow> dropWhile digit_or_dot (a @ percent # r) = percent # r"
  by (induction a) (simp_all add: percent_not_digit_or_dot)

text \<open>The test accepts exactly the strings \<open>a%wb%\<close> with \<open>a\<close>, \<open>b\<close> non-empty runs of
  digits and dots and \<open>w\<close> one white-space character.\<close>

lemma position_regex_test_iff:
  "position_regex_test s \<longleftrightarrow>
     (\<exists>a w b. s = a @ [percent] @ [w] @ b @ [percent] \<and> a \<noteq> [] \<and> b \<noteq> [] \<and>
        list_all digit_or_dot a \<and> list_all digit_or_dot b \<and> white_space w)"
proof
  assume t: "position_regex_test s"
  define a where "a = takeWhile digit_or_dot s"
  define r where "r = dropWhile digit_or_dot s"
  from t have a: "a \<noteq> []" by (simp add: position_regex_test_def a_def Let_def)
  from t obtain w r' where r: "r = percent # w # r'" and w: "white_space w"
    and b: "takeWhile digit_or_dot r' \<noteq> []" and e: "dropWhile digit_or_dot r' = [percent]"
    by (auto simp: position_regex_test_def r_def Let_def split: list.splits)
  have "s = a @ r" by (simp add: a_def r_def)
  moreover have "r' = takeWhile digit_or_dot r' @ [percent]"
    using takeWhile_dropWhile_id [of digit_or_dot r'] e by simp
  moreover have "list_all digit_or_dot a"
    by (simp add: a_def list_all_iff) (meson set_takeWhileD)
  moreover have "list_all digit_or_dot (takeWhile digit_or_dot r')"
    by (simp add: list_all_iff) (meson set_takeWhileD)
  ultimately show "\<exists>a w b. s = a @ [percent] @ [w] @ b @ [percent] \<and> a \<noteq> [] \<and> b \<noteq> [] \<and>
        list_all digit_or_dot a \<and> list_all digit_or_dot b \<and> white_space w"
    using a b w r by (intro exI [of _ a] exI [of _ w] exI [of _ "takeWhile digit_or_dot r'"]) simp
next
  assume "\<exists>a w b. s = a @ [percent] @ [w] @ b @ [percent] \<and> a \<noteq> [] \<and> b \<noteq> [] \<and>
        list_all digit_or_dot a \<and> list_all digit_or_dot b \<and> white_space w"
  then obtain a w b where s: "s = a @ percent # w # b @ [percent]" and ne: "a \<noteq> []" "b \<noteq> []"
    and da: "list_all digit_or_dot a" and db: "list_all digit_or_dot b" and w: "white_space w"
    by auto
  have "takeWhile digit_or_dot s = a" "dropWhile digit_or_dot s = percent # w # b @ [percent]"
    using da by (simp_all add: s takeWhile_run dropWhile_run)
  moreover have "takeWhile digit_or_dot (b @ [percent]) = b"
    "dropWhile digit_or_dot (b @ [percent]) = [percent]"
    using db by (simp_all add: takeWhile_run dropWhile_run)
  ultimately show "position_regex_test s"
    using ne w by (simp add: position_regex_test_def Let_def)
qed

lemma units_eval: "units (c # cs) = of_char c # units cs" "units [] = []"
  by (simp_all add: units_def)

text \<open>
  Claim C7. \<open>uploadCroppedPictureFile\<close> throws, in this order of checks and before it
  calls anything that writes, \<open>[[error:profile-image-uploads-disabled]]\<close> when
  \<open>allowProfileImageUploads\<close> is off, \<open>[[error:file-too-big, <max>]]\<close> when the file is
  larger than \<open>maximumProfileImageSize * 1024\<close> bytes, and \<open>[[error:invalid-image]]\<close> when the
  type is missing or not one of \<open>image/png\<close>, \<open>image/jpeg\<close>, \<open>image/bmp\<close>, \<open>image/gif\<close>.
  \<open>updateCoverPosition\<close> throws \<open>[[error:invalid-data]]\<close> for every position the regular
  expression rejects, that is every string not of the form of two percentages: a
  non-empty run of digits and dots, a percent sign, one white-space character of
  JavaScript's class \<open>\s\<close>, a second such run and a percent sign. In each case the state of
  files and user records is untouched.
\<close>

theorem picture_uploads_validated:
  "(\<not> allowProfileImageUploads cfg \<longrightarrow>
      uploadCroppedPictureFile env cfg data w =
        (Inl (Error ''[[error:profile-image-uploads-disabled]]''), w)) \<and>
   (allowProfileImageUploads cfg \<and> data_file data = Some f \<and>
      file_size f > maximumProfileImageSize cfg * 1024 \<longrightarrow>
      uploadCroppedPictureFile env cfg data w =
        (Inl (Error (''[[error:file-too-big, '' @ show_int (maximumProfileImageSize cfg) @ '']]'')), w)) \<and>
   (allowProfileImageUploads cfg \<and> data_file data = Some f \<and>
      \<not> file_size f > maximumProfileImageSize cfg * 1024 \<and>
      file_type f \<notin> Some ` {''image/png'', ''image/jpeg'', ''image/bmp'', ''image/gif''} \<longrightarrow>
      uploadCroppedPictureFile env cfg data w = (Inl (Error ''[[error:invalid-image]]''), w)) \<and>
   (\<not> position_regex_test position \<longrightarrow>
      updateCoverPosition env uid position w = (Inl (Error ''[[error:invalid-data]]''), w)) \<and>
   (position_regex_test position \<longleftrightarrow>
      (\<exists>a sp b. position = a @ [percent] @ [sp] @ b @ [percent] \<and> a \<noteq> [] \<and> b \<noteq> [] \<and>
         list_all digit_or_dot a \<and> list_all digit_or_dot b \<and> white_space sp))"
proof (intro conjI impI)
  assume "\<not> allowProfileImageUploads cfg"
  then show "uploadCroppedPictureFile env cfg data w =
        (Inl (Error ''[[error:profile-image-uploads-disabled]]''), w)"
    by (simp add: uploadCroppedPictureFile_def js_throw_def)
next
  assume "allowProfileImageUploads cfg \<and> data_file data = Some f \<and>
      file_size f > maximumProfileImageSize cfg * 1024"
  then show "uploadCroppedPictureFile env cfg data w =
        (Inl (Error (''[[error:file-too-big, '' @ show_int (maximumProfileImageSize cfg) @ '']]'')), w)"
    by (simp add: uploadCroppedPictureFile_def js_throw_def)
next
  assume "allowProfileImageUploads cfg \<and> data_file data = Some f \<and>
      \<not> file_size f > maximumProfileImageSize cfg * 1024 \<and>
      file_type f \<notin> Some ` {''image/png'', ''image/jpeg'', ''image/bmp'', ''image/gif''}"
  then show "uploadCroppedPictureFile env cfg data w = (Inl (Error ''[[error:invalid-image]]''), w)"
    by (cases "file_type f")
      (auto simp: uploadCroppedPictureFile_def js_throw_def getAllowedImageTypes_def)
next
  assume "\<not> position_regex_test position"
  then show "updateCoverPosition env uid position w = (Inl (Error ''[[error:invalid-data]]''), w)"
    by (simp add: updateCoverPosition_def js_throw_def)
next
  show "position_regex_test position \<longleftrightarrow>
      (\<exists>a sp b. position = a @ [percent] @ [sp] @ b @ [percent] \<and> a \<noteq> [] \<and> b \<noteq> [] \<and>
         list_all digit_or_dot a \<and> list_all digit_or_dot b \<and> white_space sp)"
    by (rule position_regex_test_iff)
qed

text \<open>
  Uploads switched off; a file of 300 KiB and one byte against a limit of 300; a PDF;
  the position \<open>50% 50\<close>, which lacks its second percent sign; and two positions that
  pass, one with a space and one with a no-break space between the percentages.
\<close>

theorem picture_uploads_validated_witness:
  "uploadCroppedPictureFile sample_picture_env
       \<lparr>allowProfileImageUploads = False, maximumProfileImageSize = 300, profileImageDimension = 200\<rparr>
       \<lparr>data_file = Some \<lparr>file_size = 10, file_type = Some ''image/png'', file_path = ''/tmp/a''\<rparr>,
         data_uid = 1, data_callerUid = 1\<rparr>
       \<lparr>written_files = [], user_fields = []\<rparr> =
     (Inl (Error ''[[error:profile-image-uploads-disabled]]''), \<lparr>written_files = [], user_fields = []\<rparr>) \<and>
   uploadCroppedPictureFile sample_picture_env
       \<lparr>allowProfileImageUploads = True, maximumProfileImageSize = 300, profileImageDimension = 200\<rparr>
       \<lparr>data_file = Some \<lparr>file_size = 307201, file_type = Some ''image/png'', file_path = ''/tmp/a''\<rparr>,
         data_uid = 1, data_callerUid = 1\<rparr>
       \<lparr>written_files = [], user_fields = []\<rparr> =
     (Inl (Error ''[[error:file-too-big, 300]]''), \<lparr>written_files = [], user_fields = []\<rparr>) \<and>
   uploadCroppedPictureFile sample_picture_env
       \<lparr>allowProfileImageUploads = True, maximumProfileImageSize = 300, profileImageDimension = 200\<rparr>
       \<lparr>data_file = Some \<lparr>file_size = 10, file_type = Some ''application/pdf'', file_path = ''/tmp/a''\<rparr>,
         data_uid = 1, data_callerUid = 1\<rparr>
       \<lparr>written_files = [], user_fields = []\<rparr> =
     (Inl (Error ''[[error:invalid-image]]''), \<lparr>written_files = [], user_fields = []\<rparr>) \<and>
   updateCoverPosition sample_picture_env 1 (units ''50% 50'') \<lparr>written_files = [], user_fields = []\<rparr> =
     (Inl (Error ''[[error:invalid-data]]''), \<lparr>written_files = [], user_fields = []\<rparr>) \<and>
   position_regex_test (units ''50.5% 7%'') \<and>
   position_regex_test (units ''50%'' @ [0xA0] @ units ''50%'')"
proof -
  note t = picture_uploads_validated [where env = sample_picture_env
      and w = "\<lparr>written_files = [], user_fields = []\<rparr>" and uid = 1]
  have r: "\<not> position_regex_test (units ''50% 50'')"
    by (simp add: position_regex_test_def digit_or_dot_def white_space_def percent_def units_eval)
  have p: "position_regex_test (units ''50.5% 7%'')"
    using t [where position = "units ''50.5% 7%''", THEN conjunct2, THEN conjunct2, THEN conjunct2,
        THEN conjunct2]
    by (simp add: position_regex_test_def digit_or_dot_def white_space_def percent_def units_eval)
  have q: "position_regex_test (units ''50%'' @ [0xA0] @ units ''50%'')"
    using t [where position = "units ''50%'' @ [0xA0] @ units ''50%''", THEN conjunct2, THEN conjunct2,
        THEN conjunct2, THEN conjunct2]
    by (simp add: position_regex_test_def digit_or_dot_def white_space_def percent_def units_eval)
  show ?thesis
    using t [where cfg = "\<lparr>allowProfileImageUploads = False, maximumProfileImageSize = 300,
                            profileImageDimension = 200\<rparr>"
        and data = "\<lparr>data_file = Some \<lparr>file_size = 10, file_type = Some ''image/png'', file_path = ''/tmp/a''\<rparr>,
                     data_uid = 1, data_callerUid = 1\<rparr>", THEN conjunct1]
      t [where cfg = "\<lparr>allowProfileImageUploads = True, maximumProfileImageSize = 300,
                            profileImageDimension = 200\<rparr>"
        and f = "\<lparr>file_size = 307201, file_type = Some ''image/png'', file_path = ''/tmp/a''\<rparr>"
        and data = "\<lparr>data_file = Some \<lparr>file_size = 307201, file_type = Some ''image/png'', file_path = ''/tmp/a''\<rparr>,
                     data_uid = 1, data_callerUid = 1\<rparr>", THEN conjunct2, THEN conjunct1]
      t [where cfg = "\<lparr>allowProfileImageUploads = True, maximumProfileImageSize = 300,
                            profileImageDimension = 200\<rparr>"
        and f = "\<lparr>file_size = 10, file_type = Some ''application/pdf'', file_path = ''/tmp/a''\<rparr>"
        and data = "\<lparr>data_file = Some \<lparr>file_size = 10, file_type = Some ''application/pdf'', file_path = ''/tmp/a''\<rparr>,
                     data_uid = 1, data_callerUid = 1\<rparr>", THEN conjunct2, THEN conjunct2, THEN conjunct1]
      t [where position = "units ''50% 50''", THEN conjunct2, THEN conjunct2, THEN conjunct2, THEN conjunct1]
      r p q
    by (simp add: show_int_def decimal_eval)
qed

section \<open>Creating groups: rejected names\<close>

lemma processGroupCreation_invalid:
  "validateGroupCreation env cfg data db = Inl e \<Longrightarrow>
   processGroupCreation env cfg now data db = (Inl e, db)"
  by (simp add: processGroupCreation_def Let_def)

text \<open>
  Claim C6. \<open>Groups.validateGroupName\<close> checks in this order and throws at the first
  check that fails: \<open>[[error:group-name-too-short]]\<close> for an empty (falsy) name;
  \<open>[[error:invalid-group-name]]\<close> for a name that is not a string;
  \<open>[[error:group-name-too-long]]\<close> for a name that is not a privilege group's and is
  longer than \<open>maximumGroupNameLength\<close>; \<open>[[error:invalid-group-name]]\<close> for \<open>guests\<close>, for a
  name with a colon that is not a privilege group's, for a name with a slash and for a
  name whose slug is empty. \<open>Groups.create\<close> throws what the validation of the name
  throws, and \<open>[[error:group-already-exists]]\<close> for a valid name whose slug is taken or
  that is a privilege group registered in \<open>groups:createtime\<close>. In each of these cases the
  database is as it was.
\<close>

theorem group_creation_rejected:
  "(\<not> truthy name \<longrightarrow>
      validateGroupName env cfg name = Inl (Error ''[[error:group-name-too-short]]'')) \<and>
   (truthy name \<and> name \<notin> range JStr \<longrightarrow>
      validateGroupName env cfg name = Inl (Error ''[[error:invalid-group-name]]'')) \<and>
   (s \<noteq> [] \<and> \<not> isPrivilegeGroup env (JStr s) \<and> int (length s) > maximumGroupNameLength cfg \<longrightarrow>
      validateGroupName env cfg (JStr s) = Inl (Error ''[[error:group-name-too-long]]'')) \<and>
   (s \<noteq> [] \<and> (isPrivilegeGroup env (JStr s) \<or> int (length s) \<le> maximumGroupNameLength cfg) \<and>
      (s = ''guests'' \<or> CHR '':'' \<in> set s \<and> \<not> isPrivilegeGroup env (JStr s) \<or>
       CHR ''/'' \<in> set s \<or> slugify env s = []) \<longrightarrow>
      validateGroupName env cfg (JStr s) = Inl (Error ''[[error:invalid-group-name]]'')) \<and>
   (validateGroupName env cfg (data_name data) = Inl e \<longrightarrow>
      Groups_create env cfg now data db = (Inl e, db)) \<and>
   (validateGroupName env cfg (data_name data) = Inr () \<and>
      slugTaken env (name_string (data_name data)) db = Inr taken \<and>
      (taken \<or> isPrivilegeGroup env (data_name data) \<and>
         db_isSortedSetMember ''groups:createtime'' (name_string (data_name data)) db) \<longrightarrow>
      Groups_create env cfg now data db = (Inl (Error ''[[error:group-already-exists]]''), db))"
proof (intro conjI impI)
  assume "\<not> truthy name"
  then show "validateGroupName env cfg name = Inl (Error ''[[error:group-name-too-short]]'')"
    by (simp add: validateGroupName_def)
next
  assume "truthy name \<and> name \<notin> range JStr"
  then show "validateGroupName env cfg name = Inl (Error ''[[error:invalid-group-name]]'')"
    by (cases name) (auto simp: validateGroupName_def)
next
  assume "s \<noteq> [] \<and> \<not> isPrivilegeGroup env (JStr s) \<and> int (length s) > maximumGroupNameLength cfg"
  then show "validateGroupName env cfg (JStr s) = Inl (Error ''[[error:group-name-too-long]]'')"
    by (simp add: validateGroupName_def)
next
  assume "s \<noteq> [] \<and> (isPrivilegeGroup env (JStr s) \<or> int (length s) \<le> maximumGroupNameLength cfg) \<and>
      (s = ''guests'' \<or> CHR '':'' \<in> set s \<and> \<not> isPrivilegeGroup env (JStr s) \<or>
       CHR ''/'' \<in> set s \<or> slugify env s = [])"
  then show "validateGroupName env cfg (JStr s) = Inl (Error ''[[error:invalid-group-name]]'')"
    by (auto simp: validateGroupName_def)
next
  assume "validateGroupName env cfg (data_name data) = Inl e"
  then have "validateGroupCreation env cfg data db = Inl e"
    by (simp add: validateGroupCreation_def)
  then show "Groups_create env cfg now data db = (Inl e, db)"
    unfolding Groups_create_def by (rule processGroupCreation_invalid)
next
  assume "validateGroupName env cfg (data_name data) = Inr () \<and>
      slugTaken env (name_string (data_name data)) db = Inr taken \<and>
      (taken \<or> isPrivilegeGroup env (data_name data) \<and>
         db_isSortedSetMember ''groups:createtime'' (name_string (data_name data)) db)"
  then have "validateGroupCreation env cfg data db = Inl (Error ''[[error:group-already-exists]]'')"
    by (auto simp: validateGroupCreation_def Let_def)
  then show "Groups_create env cfg now data db = (Inl (Error ''[[error:group-already-exists]]''), db)"
    unfolding Groups_create_def by (rule processGroupCreation_invalid)
qed

text \<open>
  Each rejection once, with names of at most 10 characters allowed: the empty name, the
  number 5, a name of 11 characters, \<open>guests\<close>, \<open>a:b\<close>, \<open>a/b\<close>, a name of two spaces, and
  the creation of \<open>staff\<close> and of \<open>cid:1:privileges:find\<close> a second time.
\<close>

theorem group_creation_rejected_witness:
  "validateGroupName sample_groups_env \<lparr>maximumGroupNameLength = 10\<rparr> (JStr []) =
     Inl (Error ''[[error:group-name-too-short]]'') \<and>
   validateGroupName sample_groups_env \<lparr>maximumGroupNameLength = 10\<rparr> (JNum (Fin 5)) =
     Inl (Error ''[[error:invalid-group-name]]'') \<and>
   validateGroupName sample_groups_env \<lparr>maximumGroupNameLength = 10\<rparr> (JStr ''elevenchars'') =
     Inl (Error ''[[error:group-name-too-long]]'') \<and>
   validateGroupName sample_groups_env \<lparr>maximumGroupNameLength = 10\<rparr> (JStr ''guests'') =
     Inl (Error ''[[error:invalid-group-name]]'') \<and>
   validateGroupName sample_groups_env \<lparr>maximumGroupNameLength = 10\<rparr> (JStr ''a:b'') =
     Inl (Error ''[[error:invalid-group-name]]'') \<and>
   validateGroupName sample_groups_env \<lparr>maximumGroupNameLength = 10\<rparr> (JStr ''a/b'') =
     Inl (Error ''[[error:invalid-group-name]]'') \<and>
   validateGroupName sample_groups_env \<lparr>maximumGroupNameLength = 10\<rparr> (JStr ''  '') =
     Inl (Error ''[[error:invalid-group-name]]'') \<and>
   Groups_create sample_groups_env \<lparr>maximumGroupNameLength = 10\<rparr> 99 (sample_group (JStr ''guests'')) staff_db =
     (Inl (Error ''[[error:invalid-group-name]]''), staff_db) \<and>
   Groups_create sample_groups_env \<lparr>maximumGroupNameLength = 10\<rparr> 99 (sample_group (JStr ''staff'')) staff_db =
     (Inl (Error ''[[error:group-already-exists]]''), staff_db) \<and>
   Groups_create sample_groups_env \<lparr>maximumGroupNameLength = 10\<rparr> 99
       (sample_group (JStr ''cid:1:privileges:find'')) staff_db =
     (Inl (Error ''[[error:group-already-exists]]''), staff_db)"
proof -
  note t = group_creation_rejected [where env = sample_groups_env
      and cfg = "\<lparr>maximumGroupNameLength = 10\<rparr>" and now = 99 and db = staff_db]
  have c1: "validateGroupName sample_groups_env \<lparr>maximumGroupNameLength = 10\<rparr> (JStr []) =
     Inl (Error ''[[error:group-name-too-short]]'')"
    using t [where name = "JStr []", THEN conjunct1] by simp
  have c2: "validateGroupName sample_groups_env \<lparr>maximumGroupNameLength = 10\<rparr> (JNum (Fin 5)) =
     Inl (Error ''[[error:invalid-group-name]]'')"
    using t [where name = "JNum (Fin 5)", THEN conjunct2, THEN conjunct1] by auto
  have c3: "validateGroupName sample_groups_env \<lparr>maximumGroupNameLength = 10\<rparr> (JStr ''elevenchars'') =
     Inl (Error ''[[error:group-name-too-long]]'')"
    using t [where s = "''elevenchars''", THEN conjunct2, THEN conjunct2, THEN conjunct1]
    by (simp add: sample_groups_env_def)
  have c4: "validateGroupName sample_groups_env \<lparr>maximumGroupNameLength = 10\<rparr> (JStr ''guests'') =
     Inl (Error ''[[error:invalid-group-name]]'')"
    using t [where s = "''guests''", THEN conjunct2, THEN conjunct2, THEN conjunct2, THEN conjunct1]
    by (simp add: sample_groups_env_def)
  have c5: "validateGroupName sample_groups_env \<lparr>maximumGroupNameLength = 10\<rparr> (JStr ''a:b'') =
     Inl (Error ''[[error:invalid-group-name]]'')"
    using t [where s = "''a:b''", THEN conjunct2, THEN conjunct2, THEN conjunct2, THEN conjunct1]
    by (simp add: sample_groups_env_def)
  have c6: "validateGroupName sample_groups_env \<lparr>maximumGroupNameLength = 10\<rparr> (JStr ''a/b'') =
     Inl (Error ''[[error:invalid-group-name]]'')"
    using t [where s = "''a/b''", THEN conjunct2, THEN conjunct2, THEN conjunct2, THEN conjunct1]
    by (simp add: sample_groups_env_def)
  have c7: "validateGroupName sample_groups_env \<lparr>maximumGroupNameLength = 10\<rparr> (JStr ''  '') =
     Inl (Error ''[[error:invalid-group-name]]'')"
    using t [where s = "''  ''", THEN conjunct2, THEN conjunct2, THEN conjunct2, THEN conjunct1]
    by (simp add: sample_groups_env_def)
  have c8: "Groups_create sample_groups_env \<lparr>maximumGroupNameLength = 10\<rparr> 99
       (sample_group (JStr ''guests'')) staff_db = (Inl (Error ''[[error:invalid-group-name]]''), staff_db)"
    using t [where data = "sample_group (JStr ''guests'')" and e = "Error ''[[error:invalid-group-name]]''",
        THEN conjunct2, THEN conjunct2, THEN conjunct2, THEN conjunct2, THEN conjunct1] c4
    by (simp add: sample_group_def)
  have v1: "validateGroupName sample_groups_env \<lparr>maximumGroupNameLength = 10\<rparr> (JStr ''staff'') = Inr ()"
    by (simp add: validateGroupName_def sample_groups_env_def)
  have v2: "validateGroupName sample_groups_env \<lparr>maximumGroupNameLength = 10\<rparr>
       (JStr ''cid:1:privileges:find'') = Inr ()"
    by (simp add: validateGroupName_def sample_groups_env_def)
  have c9: "Groups_create sample_groups_env \<lparr>maximumGroupNameLength = 10\<rparr> 99
       (sample_group (JStr ''staff'')) staff_db = (Inl (Error ''[[error:group-already-exists]]''), staff_db)"
    using t [where data = "sample_group (JStr ''staff'')" and taken = True,
        THEN conjunct2, THEN conjunct2, THEN conjunct2, THEN conjunct2, THEN conjunct2] v1
    by (simp add: sample_group_def sample_groups_env_def staff_db_def)
  have c10: "Groups_create sample_groups_env \<lparr>maximumGroupNameLength = 10\<rparr> 99
       (sample_group (JStr ''cid:1:privileges:find'')) staff_db =
     (Inl (Error ''[[error:group-already-exists]]''), staff_db)"
    using t [where data = "sample_group (JStr ''cid:1:privileges:find'')" and taken = False,
        THEN conjunct2, THEN conjunct2, THEN conjunct2, THEN conjunct2, THEN conjunct2] v2
    by (simp add: sample_group_def sample_groups_env_def staff_db_def db_isSortedSetMember_def)
  from c1 c2 c3 c4 c5 c6 c7 c8 c9 c10 show ?thesis by simp
qed

section \<open>Moderation controllers: where a thrown error goes\<close>

text \<open>Of two members that reject, \<open>Promise.all\<close> throws the earlier error and drops the other.\<close>

lemma promise_all_first_rejection:
  "promise_all (t, Inl e) (t', Inl e') = (if t \<le> t' then (t, Inl e) else (t', Inl e'))"
  by (simp add: promise_all_def)

lemma try_catch_thrown:
  "body [] = (Inl e, tr) \<Longrightarrow>
   try_catch_done done body = tr @ [if done then Done (Some e) else ConsoleError e]"
  by (simp add: try_catch_done_def)

lemma await_cases:
  "await r tr = (case r of Inl e \<Rightarrow> (Inl e, tr) | Inr x \<Rightarrow> (Inr x, tr))"
  by (simp add: await_def)

lemma flags_detail_rest_thrown:
  "flags_detail_rest env False tr = (Inl e, tr') \<Longrightarrow> tr' = tr"
  by (auto simp: flags_detail_rest_def js_bind_def await_def emit_def call_done_def js_return_def
      split: sum.splits)

lemma flags_detail_body_thrown:
  assumes "flags_detail_body env False [] = (Inl e, tr)"
  shows "tr = []"
  using assms
  by (auto simp: flags_detail_body_def js_bind_def await_promise_def await_def emit_def
      split: sum.splits option.splits if_splits dest: flags_detail_rest_thrown)

lemma postQueue_body_thrown:
  assumes "postQueue_body env False [] = (Inl e, tr)"
  shows "tr = []"
  using assms
  by (auto simp: postQueue_body_def js_bind_def await_promise_def await_def emit_def call_done_def
      js_return_def split: sum.splits if_splits)

text \<open>
  Called without \<open>done\<close>, \<open>flags.detail\<close> and \<open>postQueue\<close> do one thing with an error
  thrown in the body, whatever call it comes from: they write it with \<open>console.error\<close>.
  Nothing was done before the throw, so neither \<open>next\<close> nor the response is ever called.
\<close>

lemma flags_detail_thrown_only_logged:
  assumes "fst (flags_detail_body env False []) = Inl e"
  shows "flags_detail env False = [ConsoleError e]"
proof -
  obtain tr where b: "flags_detail_body env False [] = (Inl e, tr)"
    using assms by (cases "flags_detail_body env False []") simp
  then have "tr = []" by (rule flags_detail_body_thrown)
  with b show ?thesis by (simp add: flags_detail_def try_catch_done_def)
qed

lemma postQueue_thrown_only_logged:
  assumes "fst (postQueue_body env False []) = Inl e"
  shows "postQueue env False = [ConsoleError e]"
proof -
  obtain tr where b: "postQueue_body env False [] = (Inl e, tr)"
    using assms by (cases "postQueue_body env False []") simp
  then have "tr = []" by (rule postQueue_body_thrown)
  with b show ?thesis by (simp add: postQueue_def try_catch_done_def)
qed

text \<open>
  Claim C3. The claim fails for \<open>flags.detail\<close> and \<open>postQueue\<close>. Both take \<open>done\<close> as a
  fourth argument, after \<open>next\<close>, and a caller that passes \<open>(req, res, next)\<close> gives none.
  When \<open>flags.get\<close>, or \<open>posts.getQueuedPosts\<close>, then rejects, the error is thrown in the
  body and caught, and all that happens is one call of \<open>console.error\<close>: neither \<open>next\<close> nor
  \<open>done\<close> is called, the error reaches no continuation and the request gets no response.
  \<open>flags.list\<close>, whose \<open>done\<close> is its third argument, hands the same error to it.
\<close>

theorem thrown_error_only_logged:
  "flags_detail failing_detail_env False = [ConsoleError (Error ''[[error:invalid-data]]'')] \<and>
   \<not> passed_on (Error ''[[error:invalid-data]]'') (flags_detail failing_detail_env False) \<and>
   Next \<notin> set (flags_detail failing_detail_env False) \<and>
   postQueue failing_queue_env False = [ConsoleError (Error ''[[error:invalid-data]]'')] \<and>
   \<not> passed_on (Error ''[[error:invalid-data]]'') (postQueue failing_queue_env False) \<and>
   Next \<notin> set (postQueue failing_queue_env False) \<and>
   flags_list failing_list_env True = [Done (Some (Error ''[[error:invalid-data]]''))] \<and>
   passed_on (Error ''[[error:invalid-data]]'') (flags_list failing_list_env True)"
proof -
  have d: "flags_detail failing_detail_env False = [ConsoleError (Error ''[[error:invalid-data]]'')]"
    by (simp add: flags_detail_def flags_detail_body_def failing_detail_env_def try_catch_done_def
        js_bind_def await_promise_def await_def promise_all_def)
  have q: "postQueue failing_queue_env False = [ConsoleError (Error ''[[error:invalid-data]]'')]"
    by (simp add: postQueue_def postQueue_body_def failing_queue_env_def try_catch_done_def
        js_bind_def await_def)
  have l: "flags_list failing_list_env True = [Done (Some (Error ''[[error:invalid-data]]''))]"
    by (simp add: flags_list_def flags_list_body_def failing_list_env_def try_catch_done_def
        js_bind_def await_promise_def await_def promise_all_def js_return_def)
  show ?thesis by (simp add: d q l passed_on_def)
qed

section \<open>Readiness to post: the standard rate limit\<close>

text \<open>
  Claim C4. A user whose \<open>lastposttime\<close> is set and who posts again less than \<open>postDelay\<close>
  seconds later is rejected by \<open>User.isReadyToPost\<close> with exactly
  \<open>[[error:too-many-posts, <postDelay>]]\<close>; with \<open>postDelay = 10\<close> the message is
  \<open>[[error:too-many-posts, 10]]\<close>.
\<close>

theorem isReadyToPost_too_many_posts:
  "(now - t < postDelay cfg * 1000 \<longrightarrow>
      isReadyToPost cfg now (Some t) =
        Inl (Error (''[[error:too-many-posts, '' @ show_int (postDelay cfg) @ '']]''))) \<and>
   (now - t < 10 * 1000 \<longrightarrow>
      isReadyToPost \<lparr>postDelay = 10\<rparr> now (Some t) = Inl (Error ''[[error:too-many-posts, 10]]''))"
  by (simp add: isReadyToPost_def show_int_def decimal_eval)

text \<open>
  The test's case, where the last post was made at this very millisecond, and a post one
  minute after the last under a delay of two minutes.
\<close>

theorem isReadyToPost_too_many_posts_witness:
  "isReadyToPost \<lparr>postDelay = 10\<rparr> 1700000000000 (Some 1700000000000) =
     Inl (Error ''[[error:too-many-posts, 10]]'') \<and>
   isReadyToPost \<lparr>postDelay = 120\<rparr> 1700000060000 (Some 1700000000000) =
     Inl (Error ''[[error:too-many-posts, 120]]'')"
  using isReadyToPost_too_many_posts [where t = 1700000000000 and now = 1700000000000,
      THEN conjunct2]
    isReadyToPost_too_many_posts [where t = 1700000000000 and now = 1700000060000
      and cfg = "\<lparr>postDelay = 120\<rparr>", THEN conjunct1]
  by (simp add: show_int_def decimal_eval)

section \<open>User search: the two files agree\<close>


lemma js_bind_assoc: "js_bind (js_bind m f) g = js_bind m (\<lambda>x. js_bind (f x) g)"
  by (rule ext) (simp add: js_bind_def split: prod.splits sum.splits)


















end
